theory Spec2Isabelle
  imports Complex_Main "HOL-Library.Sublist"
begin

section \<open>The vision-language client of \<^verbatim>\<open>cvias/vision_language/vllm_client.py\<close>\<close>

text \<open>
  The module holds one class, \<^verbatim>\<open>VisionLanguageModelVLLM\<close>, with a constructor and the
  methods \<^verbatim>\<open>convert_np_image_to_url\<close>, \<^verbatim>\<open>infer_with_image\<close> and \<^verbatim>\<open>detect\<close>.
  Conventions of the embedding:
  \<^item> a Python \<^verbatim>\<open>str\<close> is the list of its code points, \<open>str\<close>; \<open>ascii\<close> turns an
    ASCII literal into one;
  \<^item> a finite Python \<^verbatim>\<open>float\<close> is the real number it stands for, and every operation that
    rounds is written with its rounding: \<open>double_round\<close> is rounding to the nearest
    binary64 value, ties to even. A decimal literal such as \<^verbatim>\<open>0.10\<close> is the rounded value.
    The threshold and the log-probabilities are finite floats;
  \<^item> an exception is the \<open>Inl\<close> of a sum; a call that returns normally is an \<open>Inr\<close>;
  \<^item> the libraries the module calls (PIL, base64, the OpenAI client, the C library behind
    \<^verbatim>\<open>math.exp\<close>, the Unicode database behind \<^verbatim>\<open>\d\<close> and \<^verbatim>\<open>float\<close>) are a parameter, the
    record \<open>library\<close>: the module's own statements are what is embedded;
  \<^item> every method also returns the list of chat-completion requests it has sent, with the
    object each was sent on.
\<close>

subsection \<open>Strings\<close>

type_synonym str = "nat list"

definition ascii :: "string \<Rightarrow> str" where
  "ascii s = map of_char s"

subsection \<open>Exceptions\<close>

text \<open>What a library call may raise: \<^verbatim>\<open>SyntaxError\<close> is singled out because \<^verbatim>\<open>detect\<close>
  has a handler for it.\<close>

datatype exn = SyntaxError | OtherException string

text \<open>What a call of a method of the class may raise: the failed \<^verbatim>\<open>assert\<close> with its
  message, the attribute lookup on \<^verbatim>\<open>None\<close>, the index \<^verbatim>\<open>[0]\<close> into an empty list, the
  read of a local variable that was never bound, or whatever a library call raised.\<close>

datatype error =
    AssertionError string
  | AttributeError string
  | IndexError
  | UnboundLocalError string
  | Library exn

subsection \<open>Library values\<close>

datatype ndarray = NDArray "nat list"

datatype image = PILImage "nat list"

text \<open>An object a request can be issued on: a client built by \<^verbatim>\<open>OpenAI(api_key=k, base_url=u)\<close>
  is \<open>OpenAI k u\<close>; any other object of the library is an \<open>Object\<close>.\<close>

datatype pyobject = OpenAI str str | Object nat

text \<open>The keyword arguments of \<^verbatim>\<open>client.chat.completions.create\<close>: the one user message
  with its text part and its image part, the model, \<^verbatim>\<open>max_tokens\<close> and \<^verbatim>\<open>logprobs\<close>.\<close>

record request =
  message_text :: str
  message_image_url :: str
  request_model :: str
  max_tokens :: nat
  logprobs :: bool

text \<open>The part of a chat completion that the module reads:
  \<^verbatim>\<open>choices[i].message.content\<close> and \<^verbatim>\<open>choices[i].logprobs.content[j].token / .logprob\<close>.\<close>

record token_logprob =
  token :: str
  logprob :: real

record choice =
  message_content :: str
  logprobs_content :: "token_logprob list"

record chat_completion =
  choices :: "choice list"

text \<open>
  The library calls of the module. \<open>math_exp\<close> is \<^verbatim>\<open>math.exp\<close>: the float it returns, or
  the \<^verbatim>\<open>OverflowError\<close> it raises. \<open>unicodedata_decimal\<close> is the decimal digit value that
  the interpreter's Unicode database gives a code point above 127, \<open>None\<close> when it has none:
  \<^verbatim>\<open>\d\<close> in a pattern for \<^verbatim>\<open>str\<close> matches every character with such a value, and \<^verbatim>\<open>float\<close>
  reads it as that digit.
\<close>

record library =
  Image_open_convert_RGB :: "str \<Rightarrow> exn + image"
  Image_fromarray :: "ndarray option \<Rightarrow> exn + image"
  save_JPEG_getvalue :: "image \<Rightarrow> exn + nat list"
  b64encode_decode :: "nat list \<Rightarrow> str"
  attribute_stream :: "pyobject \<Rightarrow> exn + pyobject"
  chat_completions_create :: "pyobject \<Rightarrow> request \<Rightarrow> exn + chat_completion"
  math_exp :: "real \<Rightarrow> exn + real"
  unicodedata_decimal :: "nat \<Rightarrow> nat option"

type_synonym calls = "(pyobject \<times> request) list"

subsection \<open>The result type\<close>

text \<open>
  Modelled from the spec: \<^verbatim>\<open>DetectedObject\<close> is imported from the package
  \<^verbatim>\<open>cog_cv_abstraction.schema.detected_object\<close>, which is not among the sources; the
  specification's data model gives its six fields, and \<^verbatim>\<open>detect\<close> sets exactly these.
\<close>

record DetectedObject =
  name :: str
  detected_model_name :: str
  confidence :: real
  probability :: real
  number_of_detection :: int
  is_detected :: bool

subsection \<open>The class\<close>

record VisionLanguageModelVLLM =
  client :: "pyobject option"
  parallel_inference :: bool
  model_name :: str
  model :: str
  endpoint :: str
  api_key :: str

text \<open>\<^verbatim>\<open>__init__\<close>: the shared client is built only when \<^verbatim>\<open>parallel_inference\<close> is false.\<close>

definition init :: "str \<Rightarrow> str \<Rightarrow> str \<Rightarrow> bool \<Rightarrow> VisionLanguageModelVLLM" where
  "init endpoint0 api_key0 model0 parallel_inference0 =
     \<lparr> client = (if \<not> parallel_inference0 then Some (OpenAI api_key0 endpoint0) else None),
       parallel_inference = parallel_inference0,
       model_name = model0,
       model = model0,
       endpoint = endpoint0,
       api_key = api_key0 \<rparr>"

text \<open>\<^verbatim>\<open>convert_np_image_to_url\<close>: save as JPEG into a buffer, base64, prefix.\<close>

definition convert_np_image_to_url :: "library \<Rightarrow> image \<Rightarrow> error + str" where
  "convert_np_image_to_url lib img =
     (case save_JPEG_getvalue lib img of
        Inl e \<Rightarrow> Inl (Library e)
      | Inr buffered \<Rightarrow> Inr (ascii ''data:image/jpeg;base64,'' @ b64encode_decode lib buffered))"

subsection \<open>\<^verbatim>\<open>infer_with_image\<close>\<close>

text \<open>Lines 52 to 58: the assertion, then the image from the path when the path is truthy
  (not \<^verbatim>\<open>None\<close> and not empty), from the array otherwise.\<close>

definition load_image :: "library \<Rightarrow> ndarray option \<Rightarrow> str option \<Rightarrow> error + image" where
  "load_image lib img image_path =
     (if \<not> (img \<noteq> None \<or> image_path \<noteq> None)
      then Inl (AssertionError ''One of 'image' or 'image_path' must be defined.'')
      else case (case image_path of
                   Some p \<Rightarrow> if p \<noteq> [] then Image_open_convert_RGB lib p
                             else Image_fromarray lib img
                 | None \<Rightarrow> Image_fromarray lib img) of
             Inl e \<Rightarrow> Inl (Library e)
           | Inr i \<Rightarrow> Inr i)"

text \<open>Lines 60 to 67: a new client from the stored key and endpoint in parallel mode,
  the attribute \<^verbatim>\<open>stream\<close> of \<^verbatim>\<open>self.client\<close> otherwise.\<close>

definition select_client :: "library \<Rightarrow> VisionLanguageModelVLLM \<Rightarrow> error + pyobject" where
  "select_client lib self =
     (if parallel_inference self then Inr (OpenAI (api_key self) (endpoint self))
      else case client self of
             None \<Rightarrow> Inl (AttributeError ''stream'')
           | Some c \<Rightarrow> (case attribute_stream lib c of
                         Inl e \<Rightarrow> Inl (Library e)
                       | Inr s \<Rightarrow> Inr s))"

text \<open>Lines 52 to 84: everything up to and including the request. The parameters
  \<^verbatim>\<open>max_new_tokens\<close> and \<^verbatim>\<open>add_generation_prompt\<close> are not read by the body and are left out.\<close>

definition send_request ::
  "library \<Rightarrow> VisionLanguageModelVLLM \<Rightarrow> str \<Rightarrow> ndarray option \<Rightarrow> str option
     \<Rightarrow> (error + chat_completion) \<times> calls" where
  "send_request lib self language img image_path =
     (case load_image lib img image_path of
        Inl e \<Rightarrow> (Inl e, [])
      | Inr i \<Rightarrow>
         (case select_client lib self of
            Inl e \<Rightarrow> (Inl e, [])
          | Inr c \<Rightarrow>
             (case convert_np_image_to_url lib i of
                Inl e \<Rightarrow> (Inl e, [])
              | Inr image_url \<Rightarrow>
                 (let req = \<lparr> message_text = language, message_image_url = image_url,
                               request_model = model self, max_tokens = 5, logprobs = True \<rparr>
                  in (case chat_completions_create lib c req of
                        Inl e \<Rightarrow> Inl (Library e)
                      | Inr chat_response \<Rightarrow> Inr chat_response,
                      [(c, req)])))))"

text \<open>Lines 86 to 92: the text of the first choice, and the confidence from its first token:
  what \<^verbatim>\<open>math.exp\<close> returns for its log-probability when the token is \<^verbatim>\<open>Yes\<close> or \<^verbatim>\<open>No\<close>,
  and 0.0 otherwise, without a call of \<^verbatim>\<open>math.exp\<close>.\<close>

definition read_response :: "library \<Rightarrow> chat_completion \<Rightarrow> error + str \<times> real" where
  "read_response lib chat_response =
     (case choices chat_response of
        [] \<Rightarrow> Inl IndexError
      | ch # _ \<Rightarrow>
         (case logprobs_content ch of
            [] \<Rightarrow> Inl IndexError
          | bool_response # _ \<Rightarrow>
             (if token bool_response \<in> set [ascii ''Yes'', ascii ''No'']
              then (case math_exp lib (logprob bool_response) of
                      Inl e \<Rightarrow> Inl (Library e)
                    | Inr confidence0 \<Rightarrow> Inr (message_content ch, confidence0))
              else Inr (message_content ch, 0))))"

definition infer_with_image ::
  "library \<Rightarrow> VisionLanguageModelVLLM \<Rightarrow> str \<Rightarrow> ndarray option \<Rightarrow> str option
     \<Rightarrow> (error + str \<times> real) \<times> calls" where
  "infer_with_image lib self language img image_path =
     (case send_request lib self language img image_path of
        (Inl e, sent) \<Rightarrow> (Inl e, sent)
      | (Inr chat_response, sent) \<Rightarrow> (read_response lib chat_response, sent))"

subsection \<open>Strings of Python used by \<^verbatim>\<open>detect\<close>\<close>

text \<open>\<^verbatim>\<open>str.lower\<close>: the letters A to Z move to a to z. The lower-case forms of the capitals
  outside ASCII are left out: the result is only searched for \<^verbatim>\<open>yes\<close>, and no character
  outside ASCII has y, e or s in its lower-case form.\<close>

definition lower_char :: "nat \<Rightarrow> nat" where
  "lower_char c = (if 65 \<le> c \<and> c \<le> 90 then c + 32 else c)"

definition lower :: "str \<Rightarrow> str" where
  "lower s = map lower_char s"

text \<open>\<^verbatim>\<open>sub in s\<close> for two strings: \<open>sub\<close> occurs in \<open>s\<close> as a contiguous substring.\<close>

fun str_contains :: "str \<Rightarrow> str \<Rightarrow> bool" where
  "str_contains [] sub = (sub = [])"
| "str_contains (c # cs) sub = (prefix sub (c # cs) \<or> str_contains cs sub)"

text \<open>The decimal digit value of a code point: 0 to 9 for the ASCII digits, none for the
  other ASCII characters, and what the Unicode database says above 127. The character class
  \<^verbatim>\<open>\d\<close> holds the code points that have one.\<close>

definition decimal :: "library \<Rightarrow> nat \<Rightarrow> nat option" where
  "decimal lib c =
     (if c < 128 then (if 48 \<le> c \<and> c \<le> 57 then Some (c - 48) else None)
      else unicodedata_decimal lib c)"

definition isdigit :: "library \<Rightarrow> nat \<Rightarrow> bool" where
  "isdigit lib c = (decimal lib c \<noteq> None)"

text \<open>
  \<^verbatim>\<open>re.search(r"\d+(\.\d+)?", s)\<close> and \<^verbatim>\<open>.group()\<close> of its result. The search takes the
  leftmost position where the pattern matches, which is the first digit of \<open>s\<close>. There
  \<^verbatim>\<open>\d+\<close> is greedy and takes the whole run of digits; the optional group takes a dot
  and the run of digits after it when that run is not empty, and nothing otherwise.
  \<open>None\<close> is Python's \<^verbatim>\<open>None\<close>: no match.
\<close>

definition match_number :: "library \<Rightarrow> str \<Rightarrow> str" where
  "match_number lib s =
     (let ds = takeWhile (isdigit lib) s in
      case dropWhile (isdigit lib) s of
        [] \<Rightarrow> ds
      | c # r \<Rightarrow> if c = of_char CHR ''.'' \<and> takeWhile (isdigit lib) r \<noteq> []
                 then ds @ [c] @ takeWhile (isdigit lib) r
                 else ds)"

fun re_search_group :: "library \<Rightarrow> str \<Rightarrow> str option" where
  "re_search_group lib [] = None"
| "re_search_group lib (c # cs) =
     (if isdigit lib c then Some (match_number lib (c # cs)) else re_search_group lib cs)"

subsection \<open>Floats of Python used by \<^verbatim>\<open>detect\<close>\<close>

text \<open>\<open>pow2 k\<close> is \<open>2\<^sup>k\<close> for an integer \<open>k\<close>, and \<open>exponent x\<close> the \<open>e\<close> with
  \<open>2\<^sup>e \<le> |x| < 2\<^sup>e\<^sup>+\<^sup>1\<close>.\<close>

definition pow2 :: "int \<Rightarrow> real" where
  "pow2 k = (if 0 \<le> k then 2 ^ nat k else 1 / 2 ^ nat (- k))"

definition exponent :: "real \<Rightarrow> int" where
  "exponent x = \<lfloor>log 2 \<bar>x\<bar>\<rfloor>"

text \<open>To the nearest integer, a tie to the even one.\<close>

definition round_half_even :: "real \<Rightarrow> int" where
  "round_half_even x =
     (let f = \<lfloor>x\<rfloor>; d = x - of_int f
      in if d < 1 / 2 then f else if 1 / 2 < d then f + 1 else if even f then f else f + 1)"

text \<open>
  Rounding to binary64, to the nearest value and a tie to the even significand. The values
  around \<open>x\<close> are the multiples of \<open>2\<^sup>q\<close>, with 53 significant bits (\<open>q = exponent x - 52\<close>)
  and no exponent below the smallest one (\<open>q \<ge> -1074\<close>). A result of \<open>2\<^sup>1\<^sup>0\<^sup>2\<^sup>4\<close> or more is
  beyond the largest float: see \<open>to_float\<close>.
\<close>

definition double_round :: "real \<Rightarrow> real" where
  "double_round x =
     (if x = 0 then 0
      else let q = max (exponent x) (- 1022) - 52
           in of_int (round_half_even (x / pow2 q)) * pow2 q)"

text \<open>A float that is not negative: finite, or \<^verbatim>\<open>inf\<close>. The second mode computes with these;
  \<open>to_float x\<close> is the float for the exact value \<open>x \<ge> 0\<close> of an operation.\<close>

datatype pyfloat = Finite real | Infinity

definition to_float :: "real \<Rightarrow> pyfloat" where
  "to_float x = (let r = double_round x in if pow2 1024 \<le> r then Infinity else Finite r)"

text \<open>Product and quotient of a float and a positive finite float \<open>y\<close>, and \<^verbatim>\<open>min(a, y)\<close>
  for a finite \<open>y\<close>.\<close>

fun float_mul :: "pyfloat \<Rightarrow> real \<Rightarrow> pyfloat" where
  "float_mul (Finite x) y = to_float (x * y)"
| "float_mul Infinity y = Infinity"

fun float_div :: "pyfloat \<Rightarrow> real \<Rightarrow> pyfloat" where
  "float_div (Finite x) y = to_float (x / y)"
| "float_div Infinity y = Infinity"

fun float_min :: "pyfloat \<Rightarrow> real \<Rightarrow> real" where
  "float_min (Finite x) y = min x y"
| "float_min Infinity y = y"

text \<open>The floats of the second mode are never negative.\<close>

fun float_nonneg :: "pyfloat \<Rightarrow> bool" where
  "float_nonneg (Finite x) = (0 \<le> x)"
| "float_nonneg Infinity = True"

text \<open>\<^verbatim>\<open>float(m)\<close> for a string \<open>m\<close> that the pattern matched: digits, then possibly a dot
  and digits. On such a string \<^verbatim>\<open>float\<close> does not raise: it reads every digit by its decimal
  value and returns the float nearest to the number written.\<close>

definition digits_value :: "library \<Rightarrow> str \<Rightarrow> nat" where
  "digits_value lib ds =
     foldl (\<lambda>a c. 10 * a + (case decimal lib c of Some d \<Rightarrow> d | None \<Rightarrow> 0)) 0 ds"

definition decimal_value :: "library \<Rightarrow> str \<Rightarrow> real" where
  "decimal_value lib m =
     (let ip = takeWhile (isdigit lib) m;
          fp = drop (Suc (length ip)) m
      in real (digits_value lib ip) + real (digits_value lib fp) / 10 ^ length fp)"

definition float_of_match :: "library \<Rightarrow> str \<Rightarrow> pyfloat" where
  "float_of_match lib m = to_float (decimal_value lib m)"

text \<open>\<^verbatim>\<open>round(x, ndigits)\<close> for a finite float \<open>x\<close>: the exact value of \<open>x\<close> goes to the nearest
  multiple of \<open>10\<^sup>-\<^sup>n\<close>, a tie to the even one, and the float nearest to that decimal is
  returned.\<close>

definition py_round :: "real \<Rightarrow> nat \<Rightarrow> real" where
  "py_round x ndigits =
     double_round (of_int (round_half_even (x * 10 ^ ndigits)) / 10 ^ ndigits)"

subsection \<open>\<^verbatim>\<open>detect\<close>\<close>

text \<open>The two prompts, as the f-strings build them.\<close>

definition token_probability_prompt :: "str \<Rightarrow> str" where
  "token_probability_prompt scene_description =
     (let parsing_rule =
            ascii (''You must only return a Yes or No, and not both, to any question asked. '' @
             ''You must not include any other symbols, information, text, justification in your answer or repeat Yes or No multiple times.'')
            @ ascii ''\<newline>'' @
            ascii ''For example, if the question is 'Is there a cat present in the Image?', the answer must only be 'Yes' or 'No'.''
      in ascii ''Is there a '' @ scene_description @ ascii '' present in the image? '' @
         ascii ''[PARSING RULE]\<newline>:'' @ parsing_rule)"

definition confidence_scale_prompt :: "str \<Rightarrow> str" where
  "confidence_scale_prompt scene_description =
     (let parsing_rule =
            ascii (''You must return a single float confidence value in a scale 0 to 10'' @
            ''For example: 0.1,1.4,2.6,3.7,4.2,5.4,6.2,7.7,8.7,9.8,10.0'' @
            ''Do not add any chatter.'' @
            ''Do not say that I cannot determine. Do your best.'')
      in ascii ''How confidently can you say that the image describe '' @ scene_description @
         ascii ''.'' @ ascii ''[PARSING RULE]\<newline>:'' @ parsing_rule)"

text \<open>Lines 169 to 176: the returned object.\<close>

definition make_result ::
  "VisionLanguageModelVLLM \<Rightarrow> str \<Rightarrow> real \<Rightarrow> real \<Rightarrow> bool \<Rightarrow> DetectedObject" where
  "make_result self scene_description confidence0 probability0 detected =
     \<lparr> name = scene_description,
       detected_model_name = model_name self,
       confidence = py_round confidence0 3,
       probability = py_round probability0 3,
       number_of_detection = 1,
       is_detected = detected \<rparr>"

text \<open>Lines 129 to 137: from the text and the confidence of \<^verbatim>\<open>infer_with_image\<close> to
  \<^verbatim>\<open>(confidence, probability, detected)\<close>. The last assignment, \<^verbatim>\<open>probability = confidence\<close>,
  stands after the conditional and runs on both of its branches.\<close>

definition token_probability_score :: "str \<Rightarrow> real \<Rightarrow> real \<Rightarrow> real \<times> real \<times> bool" where
  "token_probability_score response confidence0 threshold =
     (let (confidence1, detected) =
            (if str_contains (lower response) (ascii ''yes'')
             then (if confidence0 \<le> threshold then (0, False) else (confidence0, True))
             else (confidence0, False));
          probability1 = confidence1
      in (confidence1, probability1, detected))"

text \<open>Lines 153 to 167: from the text to \<^verbatim>\<open>(confidence, probability, detected)\<close>. The
  literal \<^verbatim>\<open>0.10\<close> is the float nearest to one tenth; \<^verbatim>\<open>confidence * 1 / 10\<close> is a product
  and then a quotient of floats.\<close>

definition confidence_scale_score ::
  "library \<Rightarrow> str \<Rightarrow> real \<Rightarrow> real \<times> real \<times> bool" where
  "confidence_scale_score lib confidence_str threshold =
     (let float_search = re_search_group lib confidence_str;
          confidence0 = (case float_search of
                           Some m \<Rightarrow> float_of_match lib m
                         | None \<Rightarrow> to_float (10 / 100));
          confidence1 = float_div (float_mul confidence0 1) 10;
          confidence2 = float_min confidence1 1;
          probability1 = confidence2;
          detected = (if confidence2 \<le> threshold then False else True)
      in (confidence2, probability1, detected))"

text \<open>
  \<^verbatim>\<open>detect\<close>. In the second mode the call of \<^verbatim>\<open>infer_with_image\<close> stands in a
  \<^verbatim>\<open>try\<close> whose handler catches \<^verbatim>\<open>SyntaxError\<close> only and reads \<^verbatim>\<open>confidence_str\<close>,
  which is unbound when the call itself raised; every other exception leaves \<^verbatim>\<open>detect\<close>.
\<close>

definition detect ::
  "library \<Rightarrow> VisionLanguageModelVLLM \<Rightarrow> ndarray \<Rightarrow> str \<Rightarrow> real \<Rightarrow> bool
     \<Rightarrow> (error + DetectedObject) \<times> calls" where
  "detect lib self frame_img scene_description threshold confidence_as_token_probability =
     (if confidence_as_token_probability
      then (case infer_with_image lib self (token_probability_prompt scene_description)
                   (Some frame_img) None of
              (Inl e, sent) \<Rightarrow> (Inl e, sent)
            | (Inr (response, confidence0), sent) \<Rightarrow>
                (case token_probability_score response confidence0 threshold of
                   (confidence1, probability1, detected) \<Rightarrow>
                     (Inr (make_result self scene_description confidence1 probability1 detected),
                      sent)))
      else (case infer_with_image lib self (confidence_scale_prompt scene_description)
                   (Some frame_img) None of
              (Inl (Library SyntaxError), sent) \<Rightarrow> (Inl (UnboundLocalError ''confidence_str''), sent)
            | (Inl e, sent) \<Rightarrow> (Inl e, sent)
            | (Inr (confidence_str, _), sent) \<Rightarrow>
                (case confidence_scale_score lib confidence_str threshold of
                   (confidence1, probability1, detected) \<Rightarrow>
                     (Inr (make_result self scene_description confidence1 probability1 detected),
                      sent))))"

subsection \<open>A simulated library\<close>

text \<open>
  A library for running the methods on concrete inputs: images load and encode without
  error, the server answers every request with one choice whose text is \<open>txt\<close> and whose
  tokens are \<open>toks\<close>, and \<^verbatim>\<open>math.exp\<close> gives \<open>ex\<close>. A client object has no attribute
  \<^verbatim>\<open>stream\<close>, so the lookup raises \<^verbatim>\<open>AttributeError\<close>. Of the digits outside ASCII the
  Arabic-Indic ones (U+0660 to U+0669) and the fullwidth ones (U+FF10 to U+FF19) are known.
\<close>

definition simulated_token :: "string \<Rightarrow> real \<Rightarrow> token_logprob" where
  "simulated_token tok lp = \<lparr> token = ascii tok, logprob = lp \<rparr>"

definition simulated_choice :: "str \<Rightarrow> token_logprob list \<Rightarrow> choice" where
  "simulated_choice txt toks = \<lparr> message_content = txt, logprobs_content = toks \<rparr>"

definition simulated_response :: "str \<Rightarrow> token_logprob list \<Rightarrow> chat_completion" where
  "simulated_response txt toks = \<lparr> choices = [simulated_choice txt toks] \<rparr>"

definition simulated_library :: "str \<Rightarrow> token_logprob list \<Rightarrow> exn + real \<Rightarrow> library" where
  "simulated_library txt toks ex =
     \<lparr> Image_open_convert_RGB = (\<lambda>p. Inr (PILImage [])),
       Image_fromarray =
         (\<lambda>a. case a of
                None \<Rightarrow> Inl (OtherException ''AttributeError'')
              | Some (NDArray px) \<Rightarrow> Inr (PILImage px)),
       save_JPEG_getvalue = (\<lambda>i. case i of PILImage px \<Rightarrow> Inr px),
       b64encode_decode = (\<lambda>b. b),
       attribute_stream = (\<lambda>c. Inl (OtherException ''AttributeError'')),
       chat_completions_create = (\<lambda>c req. Inr (simulated_response txt toks)),
       math_exp = (\<lambda>x. ex),
       unicodedata_decimal =
         (\<lambda>c. if 1632 \<le> c \<and> c \<le> 1641 then Some (c - 1632)
              else if 65296 \<le> c \<and> c \<le> 65305 then Some (c - 65296)
              else None) \<rparr>"

text \<open>The client of the module's own example: \<^verbatim>\<open>parallel_inference\<close> as given.\<close>

definition example_model :: "bool \<Rightarrow> VisionLanguageModelVLLM" where
  "example_model par =
     init (ascii ''http://localhost:8000/v1'') (ascii ''empty'')
       (ascii ''OpenGVLab/InternVL2-8B'') par"

definition example_frame :: ndarray where
  "example_frame = NDArray [0, 0, 0]"

text \<open>What the example client sends for the example frame and the prompt \<open>language\<close>: one
  request, in parallel mode on a client built from the stored key and endpoint.\<close>

definition example_request :: "str \<Rightarrow> request" where
  "example_request language =
     \<lparr> message_text = language,
       message_image_url = ascii ''data:image/jpeg;base64,'' @ [0, 0, 0],
       request_model = ascii ''OpenGVLab/InternVL2-8B'',
       max_tokens = 5,
       logprobs = True \<rparr>"

definition example_sent :: "str \<Rightarrow> calls" where
  "example_sent language =
     [(OpenAI (ascii ''empty'') (ascii ''http://localhost:8000/v1''), example_request language)]"


section \<open>Auxiliary facts\<close>

subsection \<open>Rounding to an integer\<close>

lemma round_half_even_cases: "round_half_even x = \<lfloor>x\<rfloor> \<or> round_half_even x = \<lfloor>x\<rfloor> + 1"
  by (simp add: round_half_even_def Let_def)

lemma round_half_even_of_int: "round_half_even (of_int k) = k"
  by (simp add: round_half_even_def Let_def)

lemma round_half_even_lower:
  assumes "of_int a \<le> x" shows "a \<le> round_half_even x"
proof -
  from assms have "a \<le> \<lfloor>x\<rfloor>" by (simp add: le_floor_iff)
  then show ?thesis using round_half_even_cases [of x] by auto
qed

lemma round_half_even_upper:
  assumes "x \<le> of_int b" shows "round_half_even x \<le> b"
proof (cases "x = of_int b")
  case True
  then show ?thesis by (simp add: round_half_even_of_int)
next
  case False
  with assms have "x < of_int b" by simp
  then have "\<lfloor>x\<rfloor> < b" by (simp add: floor_less_iff)
  then show ?thesis using round_half_even_cases [of x] by auto
qed

subsection \<open>Rounding to a float\<close>

lemma pow2_powr: "pow2 k = 2 powr (of_int k)"
proof (cases "0 \<le> k")
  case True
  then show ?thesis
    using powr_realpow [of 2 "nat k"] by (simp add: pow2_def)
next
  case False
  have "(2::real) powr (of_int k) = 1 / 2 powr (of_int (- k))"
    by (simp add: powr_minus_divide)
  also have "\<dots> = 1 / 2 ^ nat (- k)"
    using False powr_realpow [of 2 "nat (- k)"] by simp
  finally show ?thesis using False by (simp add: pow2_def)
qed

lemma pow2_pos: "0 < pow2 k"
  by (simp add: pow2_def)

lemma exponent_eq:
  assumes "pow2 e \<le> \<bar>x\<bar>" and "\<bar>x\<bar> < pow2 (e + 1)"
  shows "exponent x = e"
proof -
  have "0 < \<bar>x\<bar>" using assms(1) pow2_pos [of e] by linarith
  moreover have "2 powr (of_int e) \<le> \<bar>x\<bar>" using assms(1) by (simp add: pow2_powr)
  moreover have "\<bar>x\<bar> < 2 powr (of_int e + 1)" using assms(2) by (simp add: pow2_powr)
  ultimately show ?thesis
    unfolding exponent_def by (simp add: floor_log_eq_powr_iff)
qed

lemma exponent_unit_interval:
  assumes "0 < x" and "x \<le> 1"
  shows "exponent x \<le> 0"
proof -
  have "log 2 x \<le> 0" using assms by simp
  then have "\<lfloor>log 2 x\<rfloor> \<le> 0" by (simp add: floor_le_iff)
  then show ?thesis using assms(1) by (simp add: exponent_def)
qed

text \<open>How to compute \<open>double_round x\<close> from the power of two below \<open>|x|\<close>.\<close>

lemma double_round_eval:
  assumes "pow2 e \<le> \<bar>x\<bar>" and "\<bar>x\<bar> < pow2 (e + 1)" and "- 1022 \<le> e"
  shows "double_round x = of_int (round_half_even (x / pow2 (e - 52))) * pow2 (e - 52)"
proof -
  have "x \<noteq> 0" using assms(1) pow2_pos [of e] by auto
  moreover have "exponent x = e" using assms(1,2) by (rule exponent_eq)
  ultimately show ?thesis using assms(3) by (simp add: double_round_def max_def Let_def)
qed

lemma double_round_zero: "double_round 0 = 0"
  by (simp add: double_round_def)

lemma double_round_nonneg:
  assumes "0 \<le> x" shows "0 \<le> double_round x"
proof (cases "x = 0")
  case True
  then show ?thesis by (simp add: double_round_zero)
next
  case False
  define q where "q = max (exponent x) (- 1022) - 52"
  have "of_int 0 \<le> x / pow2 q" using assms pow2_pos [of q] by simp
  then have "0 \<le> round_half_even (x / pow2 q)" by (rule round_half_even_lower)
  then have "0 \<le> of_int (round_half_even (x / pow2 q)) * pow2 q"
    using pow2_pos [of q] by simp
  then show ?thesis using False by (simp add: double_round_def Let_def q_def)
qed

lemma double_round_le_one:
  assumes "x \<le> 1" shows "double_round x \<le> 1"
proof -
  consider "x = 0" | "x < 0" | "0 < x" by linarith
  then show ?thesis
  proof cases
    case 1
    then show ?thesis by (simp add: double_round_zero)
  next
    case 2
    define q where "q = max (exponent x) (- 1022) - 52"
    have "x / pow2 q \<le> of_int 0" using 2 pow2_pos [of q] by (simp add: divide_le_0_iff)
    then have "round_half_even (x / pow2 q) \<le> 0" by (rule round_half_even_upper)
    then have "of_int (round_half_even (x / pow2 q)) * pow2 q \<le> 0"
      using pow2_pos [of q] by (simp add: mult_le_0_iff)
    then show ?thesis using 2 by (simp add: double_round_def Let_def q_def)
  next
    case 3
    define q where "q = max (exponent x) (- 1022) - 52"
    define n where "n = nat (- q)"
    have "exponent x \<le> 0" using 3 assms by (rule exponent_unit_interval)
    then have q: "q < 0" by (simp add: q_def)
    then have p: "pow2 q = 1 / 2 ^ n" by (simp add: pow2_def n_def)
    have "x / pow2 q = x * 2 ^ n" by (simp add: p)
    also have "\<dots> \<le> 1 * 2 ^ n" using assms by (intro mult_right_mono) simp_all
    finally have "x / pow2 q \<le> of_int (2 ^ n)" by simp
    then have "round_half_even (x / pow2 q) \<le> 2 ^ n" by (rule round_half_even_upper)
    then have "real_of_int (round_half_even (x / pow2 q)) \<le> 2 ^ n"
      by (metis of_int_le_iff of_int_numeral of_int_power)
    then have "of_int (round_half_even (x / pow2 q)) * pow2 q \<le> 2 ^ n * pow2 q"
      using pow2_pos [of q] by (intro mult_right_mono) simp_all
    also have "\<dots> = 1" by (simp add: p)
    finally show ?thesis using 3 by (simp add: double_round_def Let_def q_def)
  qed
qed

lemma py_round_unit_interval:
  assumes "0 \<le> x" and "x \<le> 1"
  shows "0 \<le> py_round x 3 \<and> py_round x 3 \<le> 1"
proof -
  define k where "k = round_half_even (x * 10 ^ 3)"
  have "of_int 0 \<le> x * 10 ^ 3" using assms by simp
  then have lo: "0 \<le> k" unfolding k_def by (rule round_half_even_lower)
  have "x * 10 ^ 3 \<le> of_int 1000" using assms by simp
  then have hi: "k \<le> 1000" unfolding k_def by (rule round_half_even_upper)
  have "0 \<le> real_of_int k / 10 ^ 3" using lo by simp
  then have "0 \<le> double_round (of_int k / 10 ^ 3)" by (rule double_round_nonneg)
  moreover have "real_of_int k / 10 ^ 3 \<le> 1" using hi by simp
  then have "double_round (of_int k / 10 ^ 3) \<le> 1" by (rule double_round_le_one)
  ultimately show ?thesis by (simp add: py_round_def k_def)
qed

lemma py_round_zero: "py_round 0 n = 0"
  by (simp add: py_round_def round_half_even_def double_round_zero)

lemma py_round_thousandths: "\<exists>k::int. py_round x 3 = double_round (of_int k / 1000)"
  by (auto simp: py_round_def)

subsection \<open>Some floats\<close>

lemma double_round_1: "double_round 1 = 1"
proof -
  have "double_round 1 = of_int (round_half_even (1 / pow2 (0 - 52))) * pow2 (0 - 52)"
    by (rule double_round_eval) (simp_all add: pow2_def)
  also have "\<dots> = 1"
    by (simp add: pow2_def round_half_even_def Let_def)
  finally show ?thesis .
qed

lemma double_round_half: "double_round (1 / 2) = 1 / 2"
proof -
  have "double_round (1 / 2) = of_int (round_half_even (1 / 2 / pow2 (- 1 - 52))) * pow2 (- 1 - 52)"
    by (rule double_round_eval) (simp_all add: pow2_def)
  also have "\<dots> = 1 / 2"
    by (simp add: pow2_def round_half_even_def Let_def)
  finally show ?thesis .
qed



text \<open>The floats that Python writes \<^verbatim>\<open>0.1\<close> and \<^verbatim>\<open>0.01\<close>.\<close>

lemma double_round_0_1: "double_round (1 / 10) = 3602879701896397 / 36028797018963968"
proof -
  have "double_round (1 / 10) =
          of_int (round_half_even (1 / 10 / pow2 (- 4 - 52))) * pow2 (- 4 - 52)"
    by (rule double_round_eval) (simp_all add: pow2_def)
  also have "\<dots> = 3602879701896397 / 36028797018963968"
    by (simp add: pow2_def round_half_even_def Let_def)
  finally show ?thesis .
qed

lemma double_round_0_01: "double_round (1 / 100) = 5764607523034235 / 576460752303423488"
proof -
  have "double_round (1 / 100) =
          of_int (round_half_even (1 / 100 / pow2 (- 7 - 52))) * pow2 (- 7 - 52)"
    by (rule double_round_eval) (simp_all add: pow2_def)
  also have "\<dots> = 5764607523034235 / 576460752303423488"
    by (simp add: pow2_def round_half_even_def Let_def)
  finally show ?thesis .
qed

text \<open>\<^verbatim>\<open>0.1 * 1\<close> is \<^verbatim>\<open>0.1\<close>, and \<^verbatim>\<open>0.1 / 10\<close> is \<^verbatim>\<open>0.01\<close>.\<close>

lemma double_round_0_1_again:
  "double_round (3602879701896397 / 36028797018963968) = 3602879701896397 / 36028797018963968"
proof -
  have "double_round (3602879701896397 / 36028797018963968) =
          of_int (round_half_even (3602879701896397 / 36028797018963968 / pow2 (- 4 - 52)))
            * pow2 (- 4 - 52)"
    by (rule double_round_eval) (simp_all add: pow2_def)
  also have "\<dots> = 3602879701896397 / 36028797018963968"
    by (simp add: pow2_def round_half_even_def Let_def)
  finally show ?thesis .
qed

lemma double_round_0_1_div_10:
  "double_round (3602879701896397 / 36028797018963968 / 10) =
     5764607523034235 / 576460752303423488"
proof -
  have "double_round (3602879701896397 / 36028797018963968 / 10) =
          of_int (round_half_even (3602879701896397 / 36028797018963968 / 10 / pow2 (- 7 - 52)))
            * pow2 (- 7 - 52)"
    by (rule double_round_eval) (simp_all add: pow2_def)
  also have "\<dots> = 5764607523034235 / 576460752303423488"
    by (simp add: pow2_def round_half_even_def Let_def)
  finally show ?thesis .
qed

subsection \<open>The floats of the second mode\<close>

lemma to_float_nonneg: "0 \<le> x \<Longrightarrow> float_nonneg (to_float x)"
  using double_round_nonneg [of x] by (simp add: to_float_def Let_def)

lemma float_mul_nonneg: "float_nonneg a \<Longrightarrow> 0 \<le> y \<Longrightarrow> float_nonneg (float_mul a y)"
  by (cases a) (simp_all add: to_float_nonneg)

lemma float_div_nonneg: "float_nonneg a \<Longrightarrow> 0 < y \<Longrightarrow> float_nonneg (float_div a y)"
  by (cases a) (simp_all add: to_float_nonneg)

lemma float_min_range: "float_nonneg a \<Longrightarrow> 0 \<le> float_min a 1 \<and> float_min a 1 \<le> 1"
  by (cases a) simp_all

lemma decimal_value_nonneg: "0 \<le> decimal_value lib m"
  by (simp add: decimal_value_def Let_def)

lemma float_of_match_nonneg: "float_nonneg (float_of_match lib m)"
  unfolding float_of_match_def using decimal_value_nonneg by (rule to_float_nonneg)

lemma to_float_0_1: "to_float (10 / 100) = Finite (3602879701896397 / 36028797018963968)"
proof -
  have "double_round (10 / 100) = 3602879701896397 / 36028797018963968"
    using double_round_0_1 by simp
  then show ?thesis
    unfolding to_float_def Let_def by (simp add: pow2_def)
qed

lemma to_float_0_1_again:
  "to_float (3602879701896397 / 36028797018963968) =
     Finite (3602879701896397 / 36028797018963968)"
  unfolding to_float_def Let_def double_round_0_1_again by (simp add: pow2_def)

lemma to_float_0_01:
  "to_float (3602879701896397 / 36028797018963968 / 10) =
     Finite (5764607523034235 / 576460752303423488)"
  unfolding to_float_def Let_def double_round_0_1_div_10 by (simp add: pow2_def)



text \<open>The default of the second mode: \<^verbatim>\<open>0.10 * 1 / 10\<close> is the float \<^verbatim>\<open>0.01\<close>, and
  \<^verbatim>\<open>round(0.01, 3)\<close> is \<^verbatim>\<open>0.01\<close> again.\<close>

lemma default_confidence:
  "float_min (float_div (float_mul (to_float (10 / 100)) 1) 10) 1 =
     5764607523034235 / 576460752303423488"
proof -
  have "float_mul (to_float (10 / 100)) 1 = Finite (3602879701896397 / 36028797018963968)"
    unfolding to_float_0_1 float_mul.simps mult_1_right by (rule to_float_0_1_again)
  then have "float_div (float_mul (to_float (10 / 100)) 1) 10 =
      Finite (5764607523034235 / 576460752303423488)"
    unfolding float_div.simps by (simp only: float_div.simps to_float_0_01)
  then show ?thesis by simp
qed

lemma py_round_0_01:
  "py_round (5764607523034235 / 576460752303423488) 3 = double_round (1 / 100)"
proof -
  have "round_half_even (5764607523034235 / 576460752303423488 * 10 ^ 3) = 10"
    by (simp add: round_half_even_def Let_def)
  then show ?thesis
    unfolding py_round_def by simp
qed



lemma py_round_half: "py_round (1 / 2) 3 = 1 / 2"
proof -
  have "round_half_even (1 / 2 * 10 ^ 3) = 500"
    by (simp add: round_half_even_def Let_def)
  then have "py_round (1 / 2) 3 = double_round (of_int 500 / 10 ^ 3)"
    unfolding py_round_def by (simp only:)
  also have "\<dots> = double_round (1 / 2)" by simp
  finally show ?thesis by (simp only: double_round_half)
qed

lemma py_round_1: "py_round 1 3 = 1"
proof -
  have "round_half_even (1 * 10 ^ 3) = 1000"
    using round_half_even_of_int [of 1000] by simp
  then have "py_round 1 3 = double_round (of_int 1000 / 10 ^ 3)"
    unfolding py_round_def by (simp only:)
  also have "\<dots> = double_round 1" by simp
  finally show ?thesis by (simp only: double_round_1)
qed

subsection \<open>The regular expression\<close>

lemma re_search_group_None:
  "re_search_group lib s = None \<longleftrightarrow> (\<forall>c \<in> set s. \<not> isdigit lib c)"
  by (induction s) auto

lemma re_search_group_first:
  "re_search_group lib s = Some m \<longleftrightarrow>
     (\<exists>pre rest. s = pre @ rest \<and> (\<forall>c \<in> set pre. \<not> isdigit lib c) \<and> rest \<noteq> [] \<and>
        isdigit lib (hd rest) \<and> m = match_number lib rest)"
proof (induction s)
  case Nil
  then show ?case by simp
next
  case (Cons c cs)
  show ?case
  proof (cases "isdigit lib c")
    case True
    have "(\<exists>pre rest. c # cs = pre @ rest \<and> (\<forall>c \<in> set pre. \<not> isdigit lib c) \<and> rest \<noteq> [] \<and>
        isdigit lib (hd rest) \<and> m = match_number lib rest) \<longleftrightarrow> m = match_number lib (c # cs)"
    proof
      assume "\<exists>pre rest. c # cs = pre @ rest \<and> (\<forall>c \<in> set pre. \<not> isdigit lib c) \<and> rest \<noteq> [] \<and>
        isdigit lib (hd rest) \<and> m = match_number lib rest"
      then obtain pre rest where *: "c # cs = pre @ rest" "\<forall>c \<in> set pre. \<not> isdigit lib c"
        "m = match_number lib rest" by blast
      from * True have "pre = []" by (cases pre) auto
      with * show "m = match_number lib (c # cs)" by simp
    next
      assume "m = match_number lib (c # cs)"
      with True show "\<exists>pre rest. c # cs = pre @ rest \<and> (\<forall>c \<in> set pre. \<not> isdigit lib c) \<and>
        rest \<noteq> [] \<and> isdigit lib (hd rest) \<and> m = match_number lib rest"
        by (intro exI [of _ "[]"] exI [of _ "c # cs"]) simp
    qed
    with True show ?thesis by auto
  next
    case False
    have "(\<exists>pre rest. c # cs = pre @ rest \<and> (\<forall>c \<in> set pre. \<not> isdigit lib c) \<and> rest \<noteq> [] \<and>
        isdigit lib (hd rest) \<and> m = match_number lib rest) \<longleftrightarrow>
          (\<exists>pre rest. cs = pre @ rest \<and> (\<forall>c \<in> set pre. \<not> isdigit lib c) \<and> rest \<noteq> [] \<and>
        isdigit lib (hd rest) \<and> m = match_number lib rest)" (is "?L \<longleftrightarrow> ?R")
    proof
      assume ?L
      then obtain pre rest where *: "c # cs = pre @ rest" "\<forall>c \<in> set pre. \<not> isdigit lib c"
        "rest \<noteq> []" "isdigit lib (hd rest)" "m = match_number lib rest" by blast
      from * False obtain pre' where "pre = c # pre'" by (cases pre) auto
      with * have "cs = pre' @ rest" "\<forall>c \<in> set pre'. \<not> isdigit lib c" by auto
      with * show ?R by blast
    next
      assume ?R
      then obtain pre rest where *: "cs = pre @ rest" "\<forall>c \<in> set pre. \<not> isdigit lib c"
        "rest \<noteq> []" "isdigit lib (hd rest)" "m = match_number lib rest" by blast
      with False have "c # cs = (c # pre) @ rest" "\<forall>x \<in> set (c # pre). \<not> isdigit lib x" by auto
      with * show ?L by blast
    qed
    with False Cons.IH show ?thesis by simp
  qed
qed

text \<open>The ASCII digits are digits for every Unicode database, and no other ASCII character is.\<close>

lemma isdigit_ascii: "c < 128 \<Longrightarrow> isdigit lib c \<longleftrightarrow> 48 \<le> c \<and> c \<le> 57"
  by (simp add: isdigit_def decimal_def)

lemma decimal_ascii: "48 \<le> c \<Longrightarrow> c \<le> 57 \<Longrightarrow> decimal lib c = Some (c - 48)"
  by (simp add: decimal_def)



subsection \<open>Substring test\<close>

lemma str_contains_iff: "str_contains s sub \<longleftrightarrow> (\<exists>p q. s = p @ sub @ q)"
proof (induction s)
  case Nil
  then show ?case by auto
next
  case (Cons c cs)
  show ?case
  proof
    assume "str_contains (c # cs) sub"
    then consider "prefix sub (c # cs)" | "str_contains cs sub" by auto
    then show "\<exists>p q. c # cs = p @ sub @ q"
    proof cases
      case 1
      then obtain q where "c # cs = sub @ q" by (auto simp: prefix_def)
      then have "c # cs = [] @ sub @ q" by simp
      then show ?thesis by blast
    next
      case 2
      with Cons.IH obtain p q where "cs = p @ sub @ q" by blast
      then have "c # cs = (c # p) @ sub @ q" by simp
      then show ?thesis by blast
    qed
  next
    assume "\<exists>p q. c # cs = p @ sub @ q"
    then obtain p q where *: "c # cs = p @ sub @ q" by blast
    show "str_contains (c # cs) sub"
    proof (cases p)
      case Nil
      with * have "prefix sub (c # cs)" by (simp add: prefix_def)
      then show ?thesis by simp
    next
      case (Cons a p')
      with * have "cs = p' @ sub @ q" by simp
      with Cons.IH have "str_contains cs sub" by blast
      then show ?thesis by simp
    qed
  qed
qed

text \<open>The test of line 129 holds exactly when the text has the letters y, e, s in a row,
  each in either case (the code points 121 or 89, 101 or 69, 115 or 83).\<close>

lemma lower_char_y: "lower_char c = 121 \<longleftrightarrow> c = 121 \<or> c = 89"
  by (auto simp: lower_char_def)

lemma lower_char_e: "lower_char c = 101 \<longleftrightarrow> c = 101 \<or> c = 69"
  by (auto simp: lower_char_def)

lemma lower_char_s: "lower_char c = 115 \<longleftrightarrow> c = 115 \<or> c = 83"
  by (auto simp: lower_char_def)

lemma ascii_yes: "ascii ''yes'' = [121, 101, 115]"
  by (simp add: ascii_def)

lemma map_eq_appendD:
  assumes "map f s = xs @ ys"
  shows "\<exists>us vs. s = us @ vs \<and> map f us = xs \<and> map f vs = ys"
proof -
  have "s = take (length xs) s @ drop (length xs) s" by simp
  moreover have "map f (take (length xs) s) = take (length xs) (xs @ ys)"
    unfolding assms [symmetric] by (rule take_map [symmetric])
  then have "map f (take (length xs) s) = xs" by simp
  moreover have "map f (drop (length xs) s) = drop (length xs) (xs @ ys)"
    unfolding assms [symmetric] by (rule drop_map [symmetric])
  then have "map f (drop (length xs) s) = ys" by simp
  ultimately show ?thesis by blast
qed

lemma map_eq_three:
  assumes "map f m = [x, y, z]"
  shows "\<exists>a b c. m = [a, b, c] \<and> f a = x \<and> f b = y \<and> f c = z"
proof -
  from assms obtain a m1 where m: "m = a # m1" and a: "f a = x" and m1: "map f m1 = [y, z]"
    by (cases m) auto
  from m1 obtain b m2 where m1': "m1 = b # m2" and b: "f b = y" and m2: "map f m2 = [z]"
    by (cases m1) auto
  from m2 obtain c where "m2 = [c]" and "f c = z"
    by (cases m2) auto
  with m m1' a b show ?thesis by simp
qed

lemma str_contains_lower_yes:
  "str_contains (lower s) (ascii ''yes'') \<longleftrightarrow>
     (\<exists>p a b c q. s = p @ [a, b, c] @ q \<and>
        (a = 121 \<or> a = 89) \<and> (b = 101 \<or> b = 69) \<and> (c = 115 \<or> c = 83))"
  (is "?L \<longleftrightarrow> ?R")
proof
  assume ?L
  then have "\<exists>p' q'. map lower_char s = p' @ [121, 101, 115] @ q'"
    unfolding str_contains_iff lower_def ascii_yes .
  then obtain p' q' where "map lower_char s = p' @ ([121, 101, 115] @ q')"
    by (elim exE)
  from map_eq_appendD [OF this]
  obtain p r where s1: "s = p @ r" and r: "map lower_char r = [121, 101, 115] @ q'"
    by (elim exE conjE)
  from map_eq_appendD [OF r]
  obtain m q where s2: "r = m @ q" and m: "map lower_char m = [121, 101, 115]"
    by (elim exE conjE)
  from map_eq_three [OF m] obtain a b c where abc: "m = [a, b, c]" "lower_char a = 121"
    "lower_char b = 101" "lower_char c = 115"
    by (elim exE conjE)
  have s: "s = p @ [a, b, c] @ q" unfolding s1 s2 abc(1) ..
  from abc(2) have a: "a = 121 \<or> a = 89" unfolding lower_char_y .
  from abc(3) have b: "b = 101 \<or> b = 69" unfolding lower_char_e .
  from abc(4) have c: "c = 115 \<or> c = 83" unfolding lower_char_s .
  from s a b c have all: "s = p @ [a, b, c] @ q \<and>
        (a = 121 \<or> a = 89) \<and> (b = 101 \<or> b = 69) \<and> (c = 115 \<or> c = 83)"
    by (intro conjI)
  show ?R
    by (rule exI [where x = p], rule exI [where x = a], rule exI [where x = b],
        rule exI [where x = c], rule exI [where x = q], rule all)
next
  assume ?R
  then obtain p a b c q where s: "s = p @ [a, b, c] @ q"
    and a: "a = 121 \<or> a = 89" and b: "b = 101 \<or> b = 69" and c: "c = 115 \<or> c = 83"
    by (elim exE conjE)
  from a have la: "lower_char a = 121" unfolding lower_char_y .
  from b have lb: "lower_char b = 101" unfolding lower_char_e .
  from c have lc: "lower_char c = 115" unfolding lower_char_s .
  have "map lower_char s = map lower_char p @ [121, 101, 115] @ map lower_char q"
    unfolding s map_append list.map la lb lc ..
  then have "\<exists>p' q'. map lower_char s = p' @ [121, 101, 115] @ q'"
    by (intro exI)
  then show ?L
    unfolding str_contains_iff lower_def ascii_yes .
qed

subsection \<open>What the methods return\<close>

lemma infer_with_image_reads:
  assumes "send_request lib self language img image_path = (Inr r, sent)"
    and "choices r = ch # chs" and "logprobs_content ch = tok # toks"
  shows "infer_with_image lib self language img image_path =
           (if token tok = ascii ''Yes'' \<or> token tok = ascii ''No''
            then (case math_exp lib (logprob tok) of
                    Inl x \<Rightarrow> (Inl (Library x), sent)
                  | Inr e \<Rightarrow> (Inr (message_content ch, e), sent))
            else (Inr (message_content ch, 0), sent))"
  using assms by (simp add: infer_with_image_def read_response_def split: sum.splits)

lemma infer_with_image_exp:
  assumes "send_request lib self language img image_path = (Inr r, sent)"
    and "choices r = ch # chs" and "logprobs_content ch = tok # toks"
    and "math_exp lib (logprob tok) = Inr e"
  shows "infer_with_image lib self language img image_path =
           (Inr (message_content ch,
                 if token tok = ascii ''Yes'' \<or> token tok = ascii ''No'' then e else 0), sent)"
  using infer_with_image_reads [OF assms(1-3)] assms(4) by simp

lemma infer_with_image_other_token:
  assumes "send_request lib self language img image_path = (Inr r, sent)"
    and "choices r = ch # chs" and "logprobs_content ch = tok # toks"
    and "token tok \<noteq> ascii ''Yes''" and "token tok \<noteq> ascii ''No''"
  shows "infer_with_image lib self language img image_path =
           (Inr (message_content ch, 0), sent)"
  using infer_with_image_reads [OF assms(1-3)] assms(4,5) by simp

lemma detect_token_probability:
  assumes "infer_with_image lib self (token_probability_prompt d) (Some frame_img) None =
             (Inr (response, c), sent)"
  shows "detect lib self frame_img d threshold True =
           (Inr (make_result self d
                   (fst (token_probability_score response c threshold))
                   (fst (snd (token_probability_score response c threshold)))
                   (snd (snd (token_probability_score response c threshold)))), sent)"
  using assms by (simp add: detect_def split: prod.splits)

lemma detect_confidence_scale:
  assumes "infer_with_image lib self (confidence_scale_prompt d) (Some frame_img) None =
             (Inr (response, c), sent)"
  shows "detect lib self frame_img d threshold False =
           (Inr (make_result self d
                   (fst (confidence_scale_score lib response threshold))
                   (fst (snd (confidence_scale_score lib response threshold)))
                   (snd (snd (confidence_scale_score lib response threshold)))), sent)"
  using assms by (simp add: detect_def split: prod.splits)

lemma detect_Inr:
  assumes "detect lib self frame_img d threshold mode = (Inr obj, sent)"
  shows "\<exists>response c.
           infer_with_image lib self
             (if mode then token_probability_prompt d else confidence_scale_prompt d)
             (Some frame_img) None = (Inr (response, c), sent) \<and>
           obj = (if mode
                  then make_result self d
                         (fst (token_probability_score response c threshold))
                         (fst (snd (token_probability_score response c threshold)))
                         (snd (snd (token_probability_score response c threshold)))
                  else make_result self d
                         (fst (confidence_scale_score lib response threshold))
                         (fst (snd (confidence_scale_score lib response threshold)))
                         (snd (snd (confidence_scale_score lib response threshold))))"
  using assms
  by (auto simp: detect_def split: if_splits prod.splits sum.splits error.splits exn.splits)

lemma select_client_parallel: "select_client lib (init e k m True) = Inr (OpenAI k e)"
  by (simp add: select_client_def init_def)

lemma confidence_scale_score_range:
  "0 \<le> fst (confidence_scale_score lib response threshold) \<and>
   fst (confidence_scale_score lib response threshold) \<le> 1"
proof -
  define c0 where "c0 = (case re_search_group lib response of
                           Some m \<Rightarrow> float_of_match lib m
                         | None \<Rightarrow> to_float (10 / 100))"
  have "float_nonneg c0"
    unfolding c0_def by (simp add: float_of_match_nonneg to_float_nonneg split: option.split)
  then have "float_nonneg (float_mul c0 1)" by (rule float_mul_nonneg) simp
  then have "float_nonneg (float_div (float_mul c0 1) 10)" by (rule float_div_nonneg) simp
  then have "0 \<le> float_min (float_div (float_mul c0 1) 10) 1 \<and>
      float_min (float_div (float_mul c0 1) 10) 1 \<le> 1"
    by (rule float_min_range)
  then show ?thesis
    by (simp add: confidence_scale_score_def Let_def c0_def)
qed

lemma token_probability_score_range:
  assumes "0 \<le> c" and "c \<le> 1"
  shows "0 \<le> fst (token_probability_score response c threshold) \<and>
         fst (token_probability_score response c threshold) \<le> 1"
  using assms by (simp add: token_probability_score_def)

lemma score_probability:
  "fst (snd (token_probability_score response c threshold)) =
     fst (token_probability_score response c threshold)"
  "fst (snd (confidence_scale_score lib response threshold)) =
     fst (confidence_scale_score lib response threshold)"
  by (simp_all add: token_probability_score_def confidence_scale_score_def Let_def split: prod.splits)

subsection \<open>The simulated library\<close>

lemma send_request_simulated:
  "send_request (simulated_library txt toks ex) (example_model True) language
     (Some example_frame) None = (Inr (simulated_response txt toks), example_sent language)"
  by (simp add: simulated_library_def example_model_def example_frame_def init_def
      send_request_def load_image_def select_client_def convert_np_image_to_url_def
      example_sent_def example_request_def)

lemma choices_simulated:
  "choices (simulated_response txt toks) = simulated_choice txt toks # []"
  by (simp add: simulated_response_def)

lemma logprobs_content_simulated:
  "logprobs_content (simulated_choice txt (t # ts)) = t # ts"
  by (simp add: simulated_choice_def)

lemma message_content_simulated: "message_content (simulated_choice txt toks) = txt"
  by (simp add: simulated_choice_def)

lemma token_simulated: "token (simulated_token tok lp) = ascii tok"
  by (simp add: simulated_token_def)

lemma logprob_simulated: "logprob (simulated_token tok lp) = lp"
  by (simp add: simulated_token_def)

lemma math_exp_simulated: "math_exp (simulated_library txt toks ex) x = ex"
  by (simp add: simulated_library_def)

lemmas simulated_simps =
  message_content_simulated token_simulated logprob_simulated math_exp_simulated

lemma model_name_example:
  "model_name (example_model par) = ascii ''OpenGVLab/InternVL2-8B''"
  by (simp add: example_model_def init_def)

lemma infer_with_image_simulated:
  "infer_with_image (simulated_library txt (simulated_token tok lp # ts) (Inr e))
     (example_model True) language (Some example_frame) None =
     (Inr (txt, if ascii tok = ascii ''Yes'' \<or> ascii tok = ascii ''No'' then e else 0),
      example_sent language)"
  using infer_with_image_exp
          [OF send_request_simulated
                [of "txt" "simulated_token tok lp # ts" "Inr e" language]
              choices_simulated logprobs_content_simulated, of e]
  by (simp add: simulated_simps)

subsection \<open>More floats\<close>

lemma double_round_1_1: "double_round (11 / 10) = 2476979795053773 / 2251799813685248"
proof -
  have "double_round (11 / 10) =
          of_int (round_half_even (11 / 10 / pow2 (0 - 52))) * pow2 (0 - 52)"
    by (rule double_round_eval) (simp_all add: pow2_def)
  also have "\<dots> = 2476979795053773 / 2251799813685248"
    by (simp add: pow2_def round_half_even_def Let_def)
  finally show ?thesis .
qed

lemma to_float_1_1: "to_float (11 / 10) = Finite (2476979795053773 / 2251799813685248)"
  unfolding to_float_def Let_def double_round_1_1 by (simp add: pow2_def)

lemma double_round_1_1_again: "double_round (2476979795053773 / 2251799813685248) = 2476979795053773 / 2251799813685248"
proof -
  have "double_round (2476979795053773 / 2251799813685248) =
          of_int (round_half_even (2476979795053773 / 2251799813685248 / pow2 (0 - 52))) * pow2 (0 - 52)"
    by (rule double_round_eval) (simp_all add: pow2_def)
  also have "\<dots> = 2476979795053773 / 2251799813685248"
    by (simp add: pow2_def round_half_even_def Let_def)
  finally show ?thesis .
qed

lemma to_float_1_1_again: "to_float (2476979795053773 / 2251799813685248) = Finite (2476979795053773 / 2251799813685248)"
  unfolding to_float_def Let_def double_round_1_1_again by (simp add: pow2_def)

lemma double_round_1_1_div_10: "double_round (2476979795053773 / 2251799813685248 / 10) = 3963167672086037 / 36028797018963968"
proof -
  have "double_round (2476979795053773 / 2251799813685248 / 10) =
          of_int (round_half_even (2476979795053773 / 2251799813685248 / 10 / pow2 (- 4 - 52))) * pow2 (- 4 - 52)"
    by (rule double_round_eval) (simp_all add: pow2_def)
  also have "\<dots> = 3963167672086037 / 36028797018963968"
    by (simp add: pow2_def round_half_even_def Let_def)
  finally show ?thesis .
qed

lemma to_float_1_1_div_10: "to_float (2476979795053773 / 2251799813685248 / 10) = Finite (3963167672086037 / 36028797018963968)"
  unfolding to_float_def Let_def double_round_1_1_div_10 by (simp add: pow2_def)

lemma double_round_0_11: "double_round (11 / 100) = 7926335344172073 / 72057594037927936"
proof -
  have "double_round (11 / 100) =
          of_int (round_half_even (11 / 100 / pow2 (- 4 - 52))) * pow2 (- 4 - 52)"
    by (rule double_round_eval) (simp_all add: pow2_def)
  also have "\<dots> = 7926335344172073 / 72057594037927936"
    by (simp add: pow2_def round_half_even_def Let_def)
  finally show ?thesis .
qed

lemma to_float_0_11: "to_float (11 / 100) = Finite (7926335344172073 / 72057594037927936)"
  unfolding to_float_def Let_def double_round_0_11 by (simp add: pow2_def)

lemma double_round_eighth: "double_round (125 / 1000) = 1 / 8"
proof -
  have "double_round (125 / 1000) =
          of_int (round_half_even (125 / 1000 / pow2 (- 3 - 52))) * pow2 (- 3 - 52)"
    by (rule double_round_eval) (simp_all add: pow2_def)
  also have "\<dots> = 1 / 8"
    by (simp add: pow2_def round_half_even_def Let_def)
  finally show ?thesis .
qed

lemma to_float_eighth: "to_float (125 / 1000) = Finite (1 / 8)"
  unfolding to_float_def Let_def double_round_eighth by (simp add: pow2_def)

lemma double_round_eighth_again: "double_round (1 / 8) = 1 / 8"
proof -
  have "double_round (1 / 8) =
          of_int (round_half_even (1 / 8 / pow2 (- 3 - 52))) * pow2 (- 3 - 52)"
    by (rule double_round_eval) (simp_all add: pow2_def)
  also have "\<dots> = 1 / 8"
    by (simp add: pow2_def round_half_even_def Let_def)
  finally show ?thesis .
qed

lemma to_float_eighth_again: "to_float (1 / 8) = Finite (1 / 8)"
  unfolding to_float_def Let_def double_round_eighth_again by (simp add: pow2_def)

lemma double_round_eighth_div_10: "double_round (1 / 8 / 10) = 3602879701896397 / 288230376151711744"
proof -
  have "double_round (1 / 8 / 10) =
          of_int (round_half_even (1 / 8 / 10 / pow2 (- 7 - 52))) * pow2 (- 7 - 52)"
    by (rule double_round_eval) (simp_all add: pow2_def)
  also have "\<dots> = 3602879701896397 / 288230376151711744"
    by (simp add: pow2_def round_half_even_def Let_def)
  finally show ?thesis .
qed

lemma to_float_eighth_div_10: "to_float (1 / 8 / 10) = Finite (3602879701896397 / 288230376151711744)"
  unfolding to_float_def Let_def double_round_eighth_div_10 by (simp add: pow2_def)

lemma double_round_3: "double_round (3) = 3"
proof -
  have "double_round (3) =
          of_int (round_half_even (3 / pow2 (1 - 52))) * pow2 (1 - 52)"
    by (rule double_round_eval) (simp_all add: pow2_def)
  also have "\<dots> = 3"
    by (simp add: pow2_def round_half_even_def Let_def)
  finally show ?thesis .
qed

lemma to_float_3: "to_float (3) = Finite (3)"
  unfolding to_float_def Let_def double_round_3 by (simp add: pow2_def)

lemma double_round_3_div_10: "double_round (3 / 10) = 5404319552844595 / 18014398509481984"
proof -
  have "double_round (3 / 10) =
          of_int (round_half_even (3 / 10 / pow2 (- 2 - 52))) * pow2 (- 2 - 52)"
    by (rule double_round_eval) (simp_all add: pow2_def)
  also have "\<dots> = 5404319552844595 / 18014398509481984"
    by (simp add: pow2_def round_half_even_def Let_def)
  finally show ?thesis .
qed

lemma to_float_3_div_10: "to_float (3 / 10) = Finite (5404319552844595 / 18014398509481984)"
  unfolding to_float_def Let_def double_round_3_div_10 by (simp add: pow2_def)

lemma double_round_1_649: "double_round (1649 / 1000) = 1856608946383487 / 1125899906842624"
proof -
  have "double_round (1649 / 1000) =
          of_int (round_half_even (1649 / 1000 / pow2 (0 - 52))) * pow2 (0 - 52)"
    by (rule double_round_eval) (simp_all add: pow2_def)
  also have "\<dots> = 1856608946383487 / 1125899906842624"
    by (simp add: pow2_def round_half_even_def Let_def)
  finally show ?thesis .
qed

lemma to_float_1_649: "to_float (1649 / 1000) = Finite (1856608946383487 / 1125899906842624)"
  unfolding to_float_def Let_def double_round_1_649 by (simp add: pow2_def)

subsection \<open>The second mode on some texts\<close>

lemma confidence_scale_score_found:
  assumes "re_search_group lib s = Some m"
    and "float_of_match lib m = Finite a"
    and "to_float a = Finite b"
    and "to_float (b / 10) = Finite c"
  shows "confidence_scale_score lib s threshold = (min c 1, min c 1, \<not> min c 1 \<le> threshold)"
  using assms by (simp add: confidence_scale_score_def Let_def)

lemma confidence_scale_score_default:
  assumes "re_search_group lib s = None"
  shows "confidence_scale_score lib s threshold =
           (5764607523034235 / 576460752303423488, 5764607523034235 / 576460752303423488,
            \<not> 5764607523034235 / 576460752303423488 \<le> threshold)"
proof -
  have "confidence_scale_score lib s threshold =
      (float_min (float_div (float_mul (to_float (10 / 100)) 1) 10) 1,
       float_min (float_div (float_mul (to_float (10 / 100)) 1) 10) 1,
       \<not> float_min (float_div (float_mul (to_float (10 / 100)) 1) 10) 1 \<le> threshold)"
    using assms by (simp add: confidence_scale_score_def Let_def)
  then show ?thesis by (simp only: default_confidence)
qed

text \<open>\<^verbatim>\<open>1.1\<close> at the threshold \<^verbatim>\<open>0.11\<close>: \<^verbatim>\<open>1.1 * 1 / 10\<close> is \<^verbatim>\<open>0.11000000000000001\<close>,
  which is above the threshold, so the object is detected.\<close>

lemma score_of_1_1:
  "confidence_scale_score lib (ascii ''1.1'') (double_round (11 / 100)) =
     (3963167672086037 / 36028797018963968, 3963167672086037 / 36028797018963968, True)"
proof -
  have s: "re_search_group lib (ascii ''1.1'') = Some (ascii ''1.1'')"
    by (simp add: ascii_def match_number_def isdigit_ascii)
  have "decimal_value lib (ascii ''1.1'') = 11 / 10"
    by (simp add: decimal_value_def ascii_def isdigit_ascii digits_value_def decimal_ascii)
  then have f: "float_of_match lib (ascii ''1.1'') = Finite (2476979795053773 / 2251799813685248)"
    unfolding float_of_match_def by (simp only: to_float_1_1)
  have "confidence_scale_score lib (ascii ''1.1'') (double_round (11 / 100)) =
      (min (3963167672086037 / 36028797018963968) 1, min (3963167672086037 / 36028797018963968) 1,
       \<not> min (3963167672086037 / 36028797018963968) 1 \<le> double_round (11 / 100))"
    using s f to_float_1_1_again to_float_1_1_div_10 by (rule confidence_scale_score_found)
  then show ?thesis
    unfolding double_round_0_11 by simp
qed

text \<open>\<^verbatim>\<open>0.125\<close>: \<^verbatim>\<open>0.125 * 1 / 10\<close> is a float just above 0.0125, and \<^verbatim>\<open>round\<close> takes it
  to \<^verbatim>\<open>0.013\<close>.\<close>

lemma score_of_0_125:
  "py_round (fst (confidence_scale_score lib (ascii ''0.125'') threshold)) 3 =
     double_round (13 / 1000)"
proof -
  have s: "re_search_group lib (ascii ''0.125'') = Some (ascii ''0.125'')"
    by (simp add: ascii_def match_number_def isdigit_ascii)
  have "decimal_value lib (ascii ''0.125'') = 125 / 1000"
    by (simp add: decimal_value_def ascii_def isdigit_ascii digits_value_def decimal_ascii)
  then have f: "float_of_match lib (ascii ''0.125'') = Finite (1 / 8)"
    unfolding float_of_match_def by (simp only: to_float_eighth)
  have "confidence_scale_score lib (ascii ''0.125'') threshold =
      (min (3602879701896397 / 288230376151711744) 1,
       min (3602879701896397 / 288230376151711744) 1,
       \<not> min (3602879701896397 / 288230376151711744) 1 \<le> threshold)"
    using s f to_float_eighth_again to_float_eighth_div_10
    by (rule confidence_scale_score_found)
  then have v: "fst (confidence_scale_score lib (ascii ''0.125'') threshold) =
      3602879701896397 / 288230376151711744"
    by simp
  have "round_half_even (3602879701896397 / 288230376151711744 * 10 ^ 3) = 13"
    by (simp add: round_half_even_def Let_def)
  then show ?thesis
    unfolding v py_round_def by simp
qed

text \<open>The Arabic-Indic digit three, U+0663, alone: the pattern matches it, \<^verbatim>\<open>float\<close> reads 3.0,
  and the confidence is \<^verbatim>\<open>0.3\<close>.\<close>

lemma score_of_arabic_three:
  "py_round (fst (confidence_scale_score (simulated_library t toks ex) [1635] threshold)) 3 =
     double_round (3 / 10)"
proof -
  have d: "decimal (simulated_library t toks ex) 1635 = Some 3"
    by (simp add: decimal_def simulated_library_def)
  then have s: "re_search_group (simulated_library t toks ex) [1635] = Some [1635]"
    by (simp add: match_number_def isdigit_def)
  have "decimal_value (simulated_library t toks ex) [1635] = 3"
    using d by (simp add: decimal_value_def isdigit_def digits_value_def)
  then have f: "float_of_match (simulated_library t toks ex) [1635] = Finite 3"
    unfolding float_of_match_def by (simp only: to_float_3)
  have "confidence_scale_score (simulated_library t toks ex) [1635] threshold =
      (min (5404319552844595 / 18014398509481984) 1,
       min (5404319552844595 / 18014398509481984) 1,
       \<not> min (5404319552844595 / 18014398509481984) 1 \<le> threshold)"
    using s f to_float_3 to_float_3_div_10 by (rule confidence_scale_score_found)
  then have v: "fst (confidence_scale_score (simulated_library t toks ex) [1635] threshold) =
      5404319552844595 / 18014398509481984"
    by simp
  have "round_half_even (5404319552844595 / 18014398509481984 * 10 ^ 3) = 300"
    by (simp add: round_half_even_def Let_def)
  then show ?thesis
    unfolding v py_round_def by simp
qed

lemmas evaluate_detect =
  detect_def infer_with_image_simulated token_probability_score_def make_result_def
  lower_def lower_char_def model_name_example ascii_def

section \<open>The claims\<close>

text \<open>
  In the theorems below, a model response is the chat completion \<open>r\<close> that the request of
  the call returned, \<open>ch\<close> its first choice and \<open>tok\<close> the first generated token of that
  choice; \<open>sent\<close> is the request that was sent. Where the claim speaks of \<open>exp p\<close> for the
  log-probability \<open>p\<close> of that token, \<open>e\<close> is the float that \<^verbatim>\<open>math.exp\<close> returns for it.
\<close>

text \<open>
  Claim C1, as amended. In the token-probability mode, when \<open>exp p \<le> threshold\<close> for the
  log-probability \<open>p\<close> of the first token, \<^verbatim>\<open>detect\<close> returns an object that is not
  detected. Its confidence is 0.0 when the lower-cased text contains \<^verbatim>\<open>yes\<close>; when it does
  not, the confidence of \<^verbatim>\<open>infer_with_image\<close> is kept and only rounded: \<open>exp p\<close> for a
  first token \<^verbatim>\<open>Yes\<close> or \<^verbatim>\<open>No\<close>, 0.0 for another one. (\<^verbatim>\<open>math.exp\<close> never returns a
  negative float: this is the hypothesis \<open>0 \<le> e\<close>.)
\<close>

theorem token_probability_at_most_threshold:
  assumes "send_request lib self (token_probability_prompt d) (Some frame_img) None = (Inr r, sent)"
    and "choices r = ch # chs"
    and "logprobs_content ch = tok # toks"
    and "math_exp lib (logprob tok) = Inr e"
    and "0 \<le> e"
    and "e \<le> threshold"
  shows "\<exists>obj.
           detect lib self frame_img d threshold True = (Inr obj, sent) \<and>
           is_detected obj = False \<and>
           confidence obj =
             (if str_contains (lower (message_content ch)) (ascii ''yes'') then 0
              else py_round (if token tok \<in> {ascii ''Yes'', ascii ''No''} then e else 0) 3)"
proof -
  define c where "c = (if token tok = ascii ''Yes'' \<or> token tok = ascii ''No'' then e else 0)"
  have "infer_with_image lib self (token_probability_prompt d) (Some frame_img) None =
          (Inr (message_content ch, c), sent)"
    unfolding c_def by (rule infer_with_image_exp [OF assms(1-4)])
  then have det: "detect lib self frame_img d threshold True =
      (Inr (make_result self d
              (fst (token_probability_score (message_content ch) c threshold))
              (fst (snd (token_probability_score (message_content ch) c threshold)))
              (snd (snd (token_probability_score (message_content ch) c threshold)))), sent)"
    by (rule detect_token_probability)
  from assms(5,6) have "0 \<le> threshold" by linarith
  with assms(6) have "c \<le> threshold" unfolding c_def by simp
  then show ?thesis
    unfolding det c_def
    by (simp add: make_result_def token_probability_score_def py_round_zero)
qed

theorem token_probability_at_most_threshold_witness:
  "math_exp (simulated_library (ascii ''Yes'')
       [simulated_token ''Yes'' (- 6243314768165359 / 9007199254740992)] (Inr (1 / 2)))
     (logprob (simulated_token ''Yes'' (- 6243314768165359 / 9007199254740992))) = Inr (1 / 2) \<and>
   (0 :: real) \<le> 1 / 2 \<and> (1 / 2 :: real) \<le> 3 / 4 \<and>
   (\<exists>obj. detect (simulated_library (ascii ''Yes'')
                   [simulated_token ''Yes'' (- 6243314768165359 / 9007199254740992)]
                   (Inr (1 / 2)))
            (example_model True) example_frame (ascii ''cat'') (3 / 4) True
          = (Inr obj, example_sent (token_probability_prompt (ascii ''cat''))) \<and>
          is_detected obj = False \<and> confidence obj = 0)"
proof -
  have h1: "math_exp (simulated_library (ascii ''Yes'')
       [simulated_token ''Yes'' (- 6243314768165359 / 9007199254740992)] (Inr (1 / 2)))
     (logprob (simulated_token ''Yes'' (- 6243314768165359 / 9007199254740992))) = Inr (1 / 2)"
    by (simp only: math_exp_simulated)
  have h2: "(0 :: real) \<le> 1 / 2" by simp
  have h3: "(1 / 2 :: real) \<le> 3 / 4" by simp
  show ?thesis
    using h1 h2 h3 token_probability_at_most_threshold
            [OF send_request_simulated choices_simulated logprobs_content_simulated h1 h2 h3,
             of "ascii ''cat''"]
    by (simp add: simulated_simps lower_def lower_char_def ascii_def)
qed

text \<open>
  The claim as it was stated asks for confidence 0.0 whatever the text is. The answer
  \<^verbatim>\<open>No\<close> with the log-probability \<^verbatim>\<open>math.log(0.5)\<close>, for which \<^verbatim>\<open>math.exp\<close> returns 0.5, and
  the threshold 0.75 gives confidence 0.5: line 132 resets the confidence only inside the
  branch for a text that contains \<^verbatim>\<open>yes\<close>.
\<close>

theorem token_probability_at_most_threshold_counterexample:
  "(1 / 2 :: real) \<le> 3 / 4 \<and>
   detect (simulated_library (ascii ''No'')
             [simulated_token ''No'' (- 6243314768165359 / 9007199254740992)] (Inr (1 / 2)))
     (example_model True) example_frame (ascii ''cat'') (3 / 4) True
   = (Inr \<lparr> name = ascii ''cat'', detected_model_name = ascii ''OpenGVLab/InternVL2-8B'',
            confidence = 1 / 2, probability = 1 / 2, number_of_detection = 1,
            is_detected = False \<rparr>,
      example_sent (token_probability_prompt (ascii ''cat'')))"
  by (simp add: evaluate_detect py_round_half)

text \<open>
  Claim C2. When the request returns a response, \<^verbatim>\<open>infer_with_image\<close> returns the text of
  the first choice together with a confidence that is what \<^verbatim>\<open>math.exp\<close> gives for the
  log-probability of the first generated token when the text of that token is exactly
  \<^verbatim>\<open>Yes\<close> or exactly \<^verbatim>\<open>No\<close> (the call raises when \<^verbatim>\<open>math.exp\<close> does), and 0.0 for every
  other first token.
\<close>

theorem infer_with_image_confidence:
  assumes "send_request lib self language img image_path = (Inr r, sent)"
    and "choices r = ch # chs"
    and "logprobs_content ch = tok # toks"
  shows "infer_with_image lib self language img image_path =
           (if token tok \<in> {ascii ''Yes'', ascii ''No''}
            then (case math_exp lib (logprob tok) of
                    Inl x \<Rightarrow> (Inl (Library x), sent)
                  | Inr e \<Rightarrow> (Inr (message_content ch, e), sent))
            else (Inr (message_content ch, 0), sent))"
  using infer_with_image_reads [OF assms] by simp

theorem infer_with_image_confidence_witness:
  "infer_with_image (simulated_library (ascii ''Yes'') [simulated_token ''Yes'' 0] (Inr 1))
     (example_model True) (ascii ''Is it?'') (Some example_frame) None
   = (Inr (ascii ''Yes'', 1), example_sent (ascii ''Is it?''))"
  using infer_with_image_confidence
          [OF send_request_simulated
                [of "ascii ''Yes''" "[simulated_token ''Yes'' 0]" "Inr 1" "ascii ''Is it?''"]
              choices_simulated logprobs_content_simulated]
  by (simp add: simulated_simps)



text \<open>
  Claim C4, as amended. In the numeric-scale mode, when \<^verbatim>\<open>infer_with_image\<close> returns a text
  that holds no decimal number, that is no digit at all (see \<open>re_search_group_None\<close>),
  \<^verbatim>\<open>detect\<close> raises nothing: it returns an object whose confidence is \<^verbatim>\<open>0.01\<close>, the default
  \<^verbatim>\<open>0.10\<close> divided by 10. \<^verbatim>\<open>infer_with_image\<close> returns when the response has a first
  choice and that choice a first token.
\<close>

theorem confidence_scale_no_number:
  assumes "infer_with_image lib self (confidence_scale_prompt d) (Some frame_img) None =
             (Inr (response, c), sent)"
    and "\<forall>x \<in> set response. \<not> isdigit lib x"
  shows "\<exists>obj.
           detect lib self frame_img d threshold False = (Inr obj, sent) \<and>
           confidence obj = double_round (1 / 100)"
proof -
  have det: "detect lib self frame_img d threshold False =
      (Inr (make_result self d
              (fst (confidence_scale_score lib response threshold))
              (fst (snd (confidence_scale_score lib response threshold)))
              (snd (snd (confidence_scale_score lib response threshold)))), sent)"
    using assms(1) by (rule detect_confidence_scale)
  from assms(2) have none: "re_search_group lib response = None"
    by (simp add: re_search_group_None)
  have score: "fst (confidence_scale_score lib response threshold) =
      5764607523034235 / 576460752303423488"
    unfolding confidence_scale_score_default [OF none] by (rule fst_conv)
  have "confidence (make_result self d
              (fst (confidence_scale_score lib response threshold))
              (fst (snd (confidence_scale_score lib response threshold)))
              (snd (snd (confidence_scale_score lib response threshold)))) =
        py_round (fst (confidence_scale_score lib response threshold)) 3"
    by (simp add: make_result_def)
  also have "\<dots> = double_round (1 / 100)"
    unfolding score by (rule py_round_0_01)
  finally show ?thesis
    unfolding det by blast
qed

theorem confidence_scale_no_number_witness:
  "infer_with_image
     (simulated_library (ascii ''I cannot determine'') [simulated_token ''I'' 0] (Inr 1))
     (example_model True) (confidence_scale_prompt (ascii ''a cat on a mat''))
     (Some example_frame) None
   = (Inr (ascii ''I cannot determine'', 0),
      example_sent (confidence_scale_prompt (ascii ''a cat on a mat''))) \<and>
   re_search_group
     (simulated_library (ascii ''I cannot determine'') [simulated_token ''I'' 0] (Inr 1))
     (ascii ''I cannot determine'') = None \<and>
   (\<exists>obj. detect
            (simulated_library (ascii ''I cannot determine'') [simulated_token ''I'' 0] (Inr 1))
            (example_model True) example_frame (ascii ''a cat on a mat'')
            (double_round (1 / 10)) False
          = (Inr obj, example_sent (confidence_scale_prompt (ascii ''a cat on a mat''))) \<and>
          confidence obj = double_round (1 / 100))"
proof -
  have h1: "infer_with_image
     (simulated_library (ascii ''I cannot determine'') [simulated_token ''I'' 0] (Inr 1))
     (example_model True) (confidence_scale_prompt (ascii ''a cat on a mat''))
     (Some example_frame) None
   = (Inr (ascii ''I cannot determine'', 0),
      example_sent (confidence_scale_prompt (ascii ''a cat on a mat'')))"
    by (simp add: infer_with_image_simulated ascii_def)
  have h2: "\<forall>x \<in> set (ascii ''I cannot determine'').
      \<not> isdigit
          (simulated_library (ascii ''I cannot determine'') [simulated_token ''I'' 0] (Inr 1)) x"
    by (simp add: ascii_def isdigit_ascii)
  then have n: "re_search_group
     (simulated_library (ascii ''I cannot determine'') [simulated_token ''I'' 0] (Inr 1))
     (ascii ''I cannot determine'') = None"
    by (simp only: re_search_group_None)
  from h1 n confidence_scale_no_number [OF h1 h2, of "double_round (1 / 10)"]
  show ?thesis by (intro conjI)
qed

text \<open>
  The claim as it was stated has every text without a number end without an error. Line 87
  reads the first token of the response in both modes: for a response with the text
  \<^verbatim>\<open>I cannot determine\<close> and an empty list of tokens, \<^verbatim>\<open>detect\<close> ends in
  \<^verbatim>\<open>IndexError\<close>.
\<close>

theorem confidence_scale_no_number_counterexample:
  "re_search_group (simulated_library (ascii ''I cannot determine'') [] (Inr 1))
     (ascii ''I cannot determine'') = None \<and>
   detect (simulated_library (ascii ''I cannot determine'') [] (Inr 1))
     (example_model True) example_frame (ascii ''a cat on a mat'') (double_round (1 / 10)) False
   = (Inl IndexError, example_sent (confidence_scale_prompt (ascii ''a cat on a mat'')))"
proof -
  have "\<forall>x \<in> set (ascii ''I cannot determine'').
      \<not> isdigit (simulated_library (ascii ''I cannot determine'') [] (Inr 1)) x"
    by (simp add: ascii_def isdigit_ascii)
  then have n: "re_search_group (simulated_library (ascii ''I cannot determine'') [] (Inr 1))
     (ascii ''I cannot determine'') = None"
    by (simp only: re_search_group_None)
  have "detect (simulated_library (ascii ''I cannot determine'') [] (Inr 1))
     (example_model True) example_frame (ascii ''a cat on a mat'') (double_round (1 / 10)) False
   = (Inl IndexError, example_sent (confidence_scale_prompt (ascii ''a cat on a mat'')))"
    by (simp add: detect_def infer_with_image_def send_request_simulated read_response_def
        simulated_response_def simulated_choice_def)
  with n show ?thesis by (rule conjI)
qed

text \<open>
  Claim C5, as amended. For every description and threshold, in the numeric-scale mode
  for every text that \<^verbatim>\<open>infer_with_image\<close> returns, and in the token-probability mode when
  the confidence \<open>c\<close> that \<^verbatim>\<open>infer_with_image\<close> returns lies between 0.0 and 1.0 (it is
  \<open>exp p\<close> for a first token \<^verbatim>\<open>Yes\<close> or \<^verbatim>\<open>No\<close>, at most 1.0 for a log-probability
  \<open>p \<le> 0\<close>, and 0.0 otherwise), the object that \<^verbatim>\<open>detect\<close> returns has confidence and
  probability between 0.0 and 1.0, both the float of a whole number of thousandths, and
  \<^verbatim>\<open>number_of_detection\<close> 1.
\<close>

theorem detect_result_range:
  assumes "infer_with_image lib self
             (if mode then token_probability_prompt d else confidence_scale_prompt d)
             (Some frame_img) None = (Inr (response, c), sent)"
    and "mode \<Longrightarrow> 0 \<le> c"
    and "mode \<Longrightarrow> c \<le> 1"
  shows "\<exists>obj.
           detect lib self frame_img d threshold mode = (Inr obj, sent) \<and>
           0 \<le> confidence obj \<and> confidence obj \<le> 1 \<and>
           0 \<le> probability obj \<and> probability obj \<le> 1 \<and>
           (\<exists>k :: int. confidence obj = double_round (of_int k / 1000)) \<and>
           (\<exists>k :: int. probability obj = double_round (of_int k / 1000)) \<and>
           number_of_detection obj = 1"
proof -
  define v where "v = (if mode then fst (token_probability_score response c threshold)
                       else fst (confidence_scale_score lib response threshold))"
  define b where "b = (if mode then snd (snd (token_probability_score response c threshold))
                       else snd (snd (confidence_scale_score lib response threshold)))"
  have det: "detect lib self frame_img d threshold mode = (Inr (make_result self d v v b), sent)"
  proof (cases mode)
    case True
    with assms(1) have "infer_with_image lib self (token_probability_prompt d) (Some frame_img)
        None = (Inr (response, c), sent)" by simp
    from detect_token_probability [OF this] True show ?thesis
      by (simp add: v_def b_def score_probability)
  next
    case False
    with assms(1) have "infer_with_image lib self (confidence_scale_prompt d) (Some frame_img)
        None = (Inr (response, c), sent)" by simp
    from detect_confidence_scale [OF this] False show ?thesis
      by (simp add: v_def b_def score_probability)
  qed
  have v: "0 \<le> v \<and> v \<le> 1"
  proof (cases mode)
    case True
    with assms(2,3) have "0 \<le> c" "c \<le> 1" by simp_all
    then show ?thesis
      using True token_probability_score_range [of c response threshold] by (simp add: v_def)
  next
    case False
    then show ?thesis
      using confidence_scale_score_range [of lib response threshold] by (simp add: v_def)
  qed
  then have range: "0 \<le> py_round v 3 \<and> py_round v 3 \<le> 1"
    by (intro py_round_unit_interval) simp_all
  obtain k :: int where k: "py_round v 3 = double_round (of_int k / 1000)"
    using py_round_thousandths by blast
  have fields: "confidence (make_result self d v v b) = py_round v 3"
    "probability (make_result self d v v b) = py_round v 3"
    "number_of_detection (make_result self d v v b) = 1"
    by (simp_all add: make_result_def)
  show ?thesis
    unfolding det using range k fields by auto
qed

theorem detect_result_range_witness:
  "infer_with_image (simulated_library (ascii ''Yes'') [simulated_token ''Yes'' 0] (Inr 1))
     (example_model True)
     (if True then token_probability_prompt (ascii ''cat'')
      else confidence_scale_prompt (ascii ''cat''))
     (Some example_frame) None
   = (Inr (ascii ''Yes'', 1), example_sent (token_probability_prompt (ascii ''cat''))) \<and>
   (0 :: real) \<le> 1 \<and> (1 :: real) \<le> 1 \<and>
   (\<exists>obj. detect (simulated_library (ascii ''Yes'') [simulated_token ''Yes'' 0] (Inr 1))
            (example_model True) example_frame (ascii ''cat'') (1 / 4) True
          = (Inr obj, example_sent (token_probability_prompt (ascii ''cat''))) \<and>
          0 \<le> confidence obj \<and> confidence obj \<le> 1 \<and>
          0 \<le> probability obj \<and> probability obj \<le> 1 \<and>
          (\<exists>k :: int. confidence obj = double_round (of_int k / 1000)) \<and>
          (\<exists>k :: int. probability obj = double_round (of_int k / 1000)) \<and>
          number_of_detection obj = 1)"
proof -
  have h1: "infer_with_image (simulated_library (ascii ''Yes'') [simulated_token ''Yes'' 0] (Inr 1))
     (example_model True)
     (if True then token_probability_prompt (ascii ''cat'')
      else confidence_scale_prompt (ascii ''cat''))
     (Some example_frame) None
   = (Inr (ascii ''Yes'', 1), example_sent (token_probability_prompt (ascii ''cat'')))"
    by (simp add: infer_with_image_simulated)
  have h2: "(0 :: real) \<le> 1" by simp
  have h3: "(1 :: real) \<le> 1" by simp
  from h1 h2 h3 detect_result_range [OF h1 h2 h3, of "1 / 4"]
  show ?thesis by (intro conjI)
qed

text \<open>
  The claim as it was stated covers every response. The token-probability mode has no cap
  (the numeric-scale mode has \<^verbatim>\<open>min\<close> at line 163): for the answer \<^verbatim>\<open>Yes\<close> with the
  log-probability 0.5, \<^verbatim>\<open>math.exp\<close> returns \<^verbatim>\<open>1.6487212707001282\<close> and the confidence is
  \<^verbatim>\<open>1.649\<close>.
\<close>

theorem detect_result_range_counterexample:
  "(1 :: real) < 1856608946383487 / 1125899906842624 \<and>
   detect (simulated_library (ascii ''Yes'') [simulated_token ''Yes'' (1 / 2)]
             (Inr (1856295125090727 / 1125899906842624)))
     (example_model True) example_frame (ascii ''cat'') (1 / 4) True
   = (Inr \<lparr> name = ascii ''cat'', detected_model_name = ascii ''OpenGVLab/InternVL2-8B'',
            confidence = 1856608946383487 / 1125899906842624,
            probability = 1856608946383487 / 1125899906842624,
            number_of_detection = 1, is_detected = True \<rparr>,
      example_sent (token_probability_prompt (ascii ''cat'')))"
proof -
  have "round_half_even (1856295125090727 / 1125899906842624 * 10 ^ 3) = 1649"
    by (simp add: round_half_even_def Let_def)
  then have "py_round (1856295125090727 / 1125899906842624) 3 =
      double_round (of_int 1649 / 10 ^ 3)"
    unfolding py_round_def by (simp only:)
  also have "\<dots> = double_round (1649 / 1000)" by simp
  finally have r: "py_round (1856295125090727 / 1125899906842624) 3 =
      1856608946383487 / 1125899906842624"
    by (simp only: double_round_1_649)
  show ?thesis
    by (simp add: evaluate_detect r)
qed

text \<open>
  Claim C6, as amended. In the token-probability mode, when the first token is exactly
  \<^verbatim>\<open>Yes\<close> or exactly \<^verbatim>\<open>No\<close>, the lower-cased text contains \<^verbatim>\<open>yes\<close> and
  \<open>exp p > threshold\<close> for the log-probability \<open>p\<close> of that token, with \<open>exp p\<close> the float
  \<open>e\<close> that \<^verbatim>\<open>math.exp\<close> returns, \<^verbatim>\<open>detect\<close> returns an object that is detected, with
  confidence \<open>round(e, 3)\<close>.
\<close>

theorem token_probability_above_threshold:
  assumes "send_request lib self (token_probability_prompt d) (Some frame_img) None = (Inr r, sent)"
    and "choices r = ch # chs"
    and "logprobs_content ch = tok # toks"
    and "token tok \<in> {ascii ''Yes'', ascii ''No''}"
    and "str_contains (lower (message_content ch)) (ascii ''yes'')"
    and "math_exp lib (logprob tok) = Inr e"
    and "threshold < e"
  shows "\<exists>obj.
           detect lib self frame_img d threshold True = (Inr obj, sent) \<and>
           is_detected obj = True \<and>
           confidence obj = py_round e 3"
proof -
  have "infer_with_image lib self (token_probability_prompt d) (Some frame_img) None =
          (Inr (message_content ch, e), sent)"
    using infer_with_image_exp [OF assms(1-3) assms(6)] assms(4) by auto
  then have det: "detect lib self frame_img d threshold True =
      (Inr (make_result self d
              (fst (token_probability_score (message_content ch) e threshold))
              (fst (snd (token_probability_score (message_content ch) e threshold)))
              (snd (snd (token_probability_score (message_content ch) e threshold)))),
       sent)"
    by (rule detect_token_probability)
  show ?thesis
    unfolding det using assms(5,7)
    by (simp add: make_result_def token_probability_score_def)
qed

theorem token_probability_above_threshold_witness:
  "token (simulated_token ''Yes'' 0) \<in> {ascii ''Yes'', ascii ''No''} \<and>
   str_contains (lower (message_content (simulated_choice (ascii ''Yes'') [simulated_token ''Yes'' 0])))
     (ascii ''yes'') \<and>
   math_exp (simulated_library (ascii ''Yes'') [simulated_token ''Yes'' 0] (Inr 1))
     (logprob (simulated_token ''Yes'' 0)) = Inr 1 \<and>
   (1 / 4 :: real) < 1 \<and>
   (\<exists>obj. detect (simulated_library (ascii ''Yes'') [simulated_token ''Yes'' 0] (Inr 1))
            (example_model True) example_frame (ascii ''cat'') (1 / 4) True
          = (Inr obj, example_sent (token_probability_prompt (ascii ''cat''))) \<and>
          is_detected obj = True \<and> confidence obj = 1)"
proof -
  have h1: "token (simulated_token ''Yes'' 0) \<in> {ascii ''Yes'', ascii ''No''}"
    by (simp add: simulated_simps)
  have h2: "str_contains
      (lower (message_content (simulated_choice (ascii ''Yes'') [simulated_token ''Yes'' 0])))
      (ascii ''yes'')"
    by (simp add: simulated_simps lower_def lower_char_def ascii_def)
  have h3: "math_exp (simulated_library (ascii ''Yes'') [simulated_token ''Yes'' 0] (Inr 1))
     (logprob (simulated_token ''Yes'' 0)) = Inr 1"
    by (simp only: math_exp_simulated)
  have h4: "(1 / 4 :: real) < 1" by simp
  from h1 h2 h3 h4 token_probability_above_threshold
            [OF send_request_simulated choices_simulated logprobs_content_simulated h1 h2 h3 h4,
             of "ascii ''cat''"]
  show ?thesis unfolding py_round_1 by (intro conjI)
qed

text \<open>
  Without the condition on the first token the claim fails: for the answer \<^verbatim>\<open>yes\<close> in lower
  case, with log-probability 0.0 (\<^verbatim>\<open>math.exp\<close> of it is 1.0) and the threshold 0.25, line 91
  sets the confidence to 0.0, which is not above the threshold, and the object is not
  detected.
\<close>

theorem token_probability_above_threshold_counterexample:
  "str_contains (lower (ascii ''yes'')) (ascii ''yes'') \<and>
   math_exp (simulated_library (ascii ''yes'') [simulated_token ''yes'' 0] (Inr 1)) 0 = Inr 1 \<and>
   (1 / 4 :: real) < 1 \<and>
   detect (simulated_library (ascii ''yes'') [simulated_token ''yes'' 0] (Inr 1))
     (example_model True) example_frame (ascii ''cat'') (1 / 4) True
   = (Inr \<lparr> name = ascii ''cat'', detected_model_name = ascii ''OpenGVLab/InternVL2-8B'',
            confidence = 0, probability = 0, number_of_detection = 1,
            is_detected = False \<rparr>,
      example_sent (token_probability_prompt (ascii ''cat'')))"
  by (simp add: evaluate_detect py_round_zero math_exp_simulated)

text \<open>
  Claim C7. A call of \<^verbatim>\<open>infer_with_image\<close> with neither an image nor an image path fails
  at the assertion of line 52, the error the specification calls \<^verbatim>\<open>InvalidArgument\<close>, and
  has sent no request; when one of the two is given, the call never ends in that error.
\<close>

theorem infer_with_image_requires_image:
  "infer_with_image lib self language None None =
     (Inl (AssertionError ''One of 'image' or 'image_path' must be defined.''), []) \<and>
   (img \<noteq> None \<or> image_path \<noteq> None \<longrightarrow>
      (\<forall>msg. fst (infer_with_image lib self language img image_path) \<noteq> Inl (AssertionError msg)))"
  by (auto simp: infer_with_image_def send_request_def load_image_def select_client_def
      convert_np_image_to_url_def read_response_def Let_def
      split: sum.splits option.splits list.splits if_splits)

theorem infer_with_image_requires_image_witness:
  "Some example_frame \<noteq> None \<and>
   fst (infer_with_image (simulated_library (ascii ''Yes'') [simulated_token ''Yes'' 0] (Inr 1))
          (example_model True) (ascii ''Is it?'') (Some example_frame) None)
     \<noteq> Inl (AssertionError ''One of 'image' or 'image_path' must be defined.'')"
  using infer_with_image_requires_image
          [of "simulated_library (ascii ''Yes'') [simulated_token ''Yes'' 0] (Inr 1)"
              "example_model True" "ascii ''Is it?''" "Some example_frame" None]
  by simp

text \<open>
  Claim C8. Whenever \<^verbatim>\<open>detect\<close> returns an object, in either mode and on every branch,
  the probability of the object equals its confidence.
\<close>

theorem detect_probability_is_confidence:
  assumes "detect lib self frame_img d threshold mode = (Inr obj, sent)"
  shows "probability obj = confidence obj"
proof -
  from detect_Inr [OF assms] obtain response c where
    "obj = (if mode
            then make_result self d
                   (fst (token_probability_score response c threshold))
                   (fst (snd (token_probability_score response c threshold)))
                   (snd (snd (token_probability_score response c threshold)))
            else make_result self d
                   (fst (confidence_scale_score lib response threshold))
                   (fst (snd (confidence_scale_score lib response threshold)))
                   (snd (snd (confidence_scale_score lib response threshold))))"
    by blast
  then show ?thesis
    by (simp add: make_result_def score_probability)
qed

theorem detect_probability_is_confidence_witness:
  "detect (simulated_library (ascii ''No'')
             [simulated_token ''No'' (- 6243314768165359 / 9007199254740992)] (Inr (1 / 2)))
     (example_model True) example_frame (ascii ''cat'') (3 / 4) True
   = (Inr \<lparr> name = ascii ''cat'', detected_model_name = ascii ''OpenGVLab/InternVL2-8B'',
            confidence = 1 / 2, probability = 1 / 2, number_of_detection = 1,
            is_detected = False \<rparr>,
      example_sent (token_probability_prompt (ascii ''cat''))) \<and>
   probability \<lparr> name = ascii ''cat'', detected_model_name = ascii ''OpenGVLab/InternVL2-8B'',
            confidence = 1 / 2, probability = 1 / 2, number_of_detection = 1,
            is_detected = False \<rparr> =
   confidence \<lparr> name = ascii ''cat'', detected_model_name = ascii ''OpenGVLab/InternVL2-8B'',
            confidence = 1 / 2, probability = 1 / 2, number_of_detection = 1,
            is_detected = False \<rparr>"
proof -
  have h: "detect (simulated_library (ascii ''No'')
             [simulated_token ''No'' (- 6243314768165359 / 9007199254740992)] (Inr (1 / 2)))
     (example_model True) example_frame (ascii ''cat'') (3 / 4) True
   = (Inr \<lparr> name = ascii ''cat'', detected_model_name = ascii ''OpenGVLab/InternVL2-8B'',
            confidence = 1 / 2, probability = 1 / 2, number_of_detection = 1,
            is_detected = False \<rparr>,
      example_sent (token_probability_prompt (ascii ''cat'')))"
    by (simp add: evaluate_detect py_round_half)
  from h detect_probability_is_confidence [OF h] show ?thesis by (rule conjI)
qed

text \<open>
  Claim C9 says that without \<^verbatim>\<open>parallel_inference\<close> the request goes out on the client built
  by the constructor. Line 67 takes the attribute \<^verbatim>\<open>stream\<close> of that client instead: the
  request goes out on whatever the lookup gives. With a client that has no such attribute
  the example call ends in \<^verbatim>\<open>AttributeError\<close> and sends nothing; with a lookup that gives
  another object the request is sent on that object. (In parallel mode the client is a new
  \<^verbatim>\<open>OpenAI\<close> built from the stored key and endpoint: \<open>select_client_parallel\<close>.)
\<close>

theorem shared_client_stream_attribute:
  "select_client lib (init e k m False) =
     (case attribute_stream lib (OpenAI k e) of Inl x \<Rightarrow> Inl (Library x) | Inr s \<Rightarrow> Inr s) \<and>
   client (example_model False) =
     Some (OpenAI (ascii ''empty'') (ascii ''http://localhost:8000/v1'')) \<and>
   infer_with_image (simulated_library (ascii ''Yes'') [simulated_token ''Yes'' 0] (Inr 1))
     (example_model False) (ascii ''Describe this image'') (Some example_frame) None
   = (Inl (Library (OtherException ''AttributeError'')), []) \<and>
   snd (infer_with_image
          ((simulated_library (ascii ''Yes'') [simulated_token ''Yes'' 0] (Inr 1))
             \<lparr> attribute_stream := \<lambda>c. Inr (Object 0) \<rparr>)
          (example_model False) (ascii ''Describe this image'') (Some example_frame) None)
   = [(Object 0, example_request (ascii ''Describe this image''))]"
  by (simp add: select_client_def init_def example_model_def infer_with_image_def
      send_request_def load_image_def convert_np_image_to_url_def simulated_library_def
      example_frame_def example_request_def read_response_def simulated_response_def
      simulated_choice_def simulated_token_def)

text \<open>
  Claim C10. In the token-probability mode, for a threshold that is not negative and a
  first token that is neither exactly \<^verbatim>\<open>Yes\<close> nor exactly \<^verbatim>\<open>No\<close>, \<^verbatim>\<open>detect\<close> returns an
  object that is not detected and has confidence 0.0, whether or not the text contains
  \<^verbatim>\<open>yes\<close>.
\<close>

theorem token_probability_other_token:
  assumes "send_request lib self (token_probability_prompt d) (Some frame_img) None = (Inr r, sent)"
    and "choices r = ch # chs"
    and "logprobs_content ch = tok # toks"
    and "token tok \<noteq> ascii ''Yes''" and "token tok \<noteq> ascii ''No''"
    and "0 \<le> threshold"
  shows "\<exists>obj.
           detect lib self frame_img d threshold True = (Inr obj, sent) \<and>
           is_detected obj = False \<and>
           confidence obj = 0"
proof -
  have "infer_with_image lib self (token_probability_prompt d) (Some frame_img) None =
          (Inr (message_content ch, 0), sent)"
    by (rule infer_with_image_other_token [OF assms(1-5)])
  then have det: "detect lib self frame_img d threshold True =
      (Inr (make_result self d
              (fst (token_probability_score (message_content ch) 0 threshold))
              (fst (snd (token_probability_score (message_content ch) 0 threshold)))
              (snd (snd (token_probability_score (message_content ch) 0 threshold)))),
       sent)"
    by (rule detect_token_probability)
  show ?thesis
    unfolding det using assms(6)
    by (simp add: make_result_def token_probability_score_def py_round_zero)
qed

theorem token_probability_other_token_witness:
  "token (simulated_token ''yes'' 0) \<noteq> ascii ''Yes'' \<and>
   token (simulated_token ''yes'' 0) \<noteq> ascii ''No'' \<and>
   (0 :: real) \<le> 1 / 4 \<and>
   (\<exists>obj. detect (simulated_library (ascii ''yes, a cat'') [simulated_token ''yes'' 0] (Inr 1))
            (example_model True) example_frame (ascii ''cat'') (1 / 4) True
          = (Inr obj, example_sent (token_probability_prompt (ascii ''cat''))) \<and>
          is_detected obj = False \<and> confidence obj = 0)"
proof -
  have h1: "token (simulated_token ''yes'' 0) \<noteq> ascii ''Yes''"
    by (simp add: simulated_simps ascii_def)
  have h2: "token (simulated_token ''yes'' 0) \<noteq> ascii ''No''"
    by (simp add: simulated_simps ascii_def)
  have h3: "(0 :: real) \<le> 1 / 4" by simp
  from h1 h2 h3 token_probability_other_token
            [OF send_request_simulated
                  [of "ascii ''yes, a cat''" "[simulated_token ''yes'' 0]" "Inr 1"
                      "token_probability_prompt (ascii ''cat'')"]
                choices_simulated logprobs_content_simulated h1 h2 h3]
  show ?thesis by (intro conjI)
qed

end
